theory Spec2Isabelle
  imports Main "HOL-Library.AList" "HOL-Library.Sublist"
begin

section \<open>Python values, exceptions and the call monad\<close>

text \<open>
  The three tools of \<^verbatim>\<open>main.py\<close> return Python dictionaries with string keys whose values
  are strings, integers, booleans, \<^verbatim>\<open>None\<close>, lists and further dictionaries. A dictionary
  is an association list in insertion order. Strings are byte lists; every pattern the
  program searches for is ASCII, so matching on bytes agrees with matching on code points.
\<close>

datatype pyval =
    PNone
  | PBool bool
  | PInt int
  | PStr string
  | PList "pyval list"
  | PDict "(string \<times> pyval) list"

type_synonym pydict = "(string \<times> pyval) list"

text \<open>A result row of the SQL client is a tuple of values.\<close>

type_synonym row = "pyval list"

text \<open>Python's truth test, the one behind \<^verbatim>\<open>not x\<close>, \<^verbatim>\<open>x or y\<close> and \<^verbatim>\<open>x and y\<close>.\<close>

fun truthy :: "pyval \<Rightarrow> bool" where
  "truthy PNone = False"
| "truthy (PBool b) = b"
| "truthy (PInt i) = (i \<noteq> 0)"
| "truthy (PStr s) = (s \<noteq> [])"
| "truthy (PList xs) = (xs \<noteq> [])"
| "truthy (PDict kvs) = (kvs \<noteq> [])"

text \<open>An optional string (\<^verbatim>\<open>str | None\<close>, or the result of \<^verbatim>\<open>os.getenv\<close>) as a value.\<close>

fun of_opt :: "string option \<Rightarrow> pyval" where
  "of_opt None = PNone"
| "of_opt (Some s) = PStr s"

definition truthy_opt :: "string option \<Rightarrow> bool" where
  "truthy_opt x = truthy (of_opt x)"

text \<open>\<^verbatim>\<open>a or b\<close>: \<^verbatim>\<open>a\<close> when it is truthy, otherwise \<^verbatim>\<open>b\<close> whatever it is.\<close>

definition py_or :: "string option \<Rightarrow> string option \<Rightarrow> string option" where
  "py_or a b = (if truthy_opt a then a else b)"

text \<open>
  Exceptions. The built-in classes the program and the indexing and attribute operations
  raise carry their message. \<open>Error\<close> is the class of the SQL client library
  (\<^verbatim>\<open>databricks.sql.exc.Error\<close> and its subclasses); its message is optional, \<^verbatim>\<open>None\<close>
  when the exception was built without one. \<open>KeyboardInterrupt\<close> and \<open>SystemExit\<close> derive
  from \<^verbatim>\<open>BaseException\<close> only: they can arrive during any call and are no instances of
  \<^verbatim>\<open>Exception\<close>.
\<close>

datatype exn =
    ValueError string
  | IndexError string
  | AttributeError string
  | TypeError string
  | Error "string option"
  | KeyboardInterrupt
  | SystemExit

text \<open>\<^verbatim>\<open>isinstance(e, Exception)\<close>: what \<^verbatim>\<open>except Exception\<close> catches.\<close>

fun is_Exception :: "exn \<Rightarrow> bool" where
  "is_Exception KeyboardInterrupt = False"
| "is_Exception SystemExit = False"
| "is_Exception e = True"

text \<open>
  \<^verbatim>\<open>str(e)\<close>. For the built-in classes it is the message. The client's \<open>Error\<close> returns
  its \<^verbatim>\<open>message\<close> attribute from \<^verbatim>\<open>__str__\<close>; when that is \<^verbatim>\<open>None\<close>, \<^verbatim>\<open>str\<close> itself raises a
  \<^verbatim>\<open>TypeError\<close>.
\<close>

fun str_exn :: "exn \<Rightarrow> exn + string" where
  "str_exn (ValueError m) = Inr m"
| "str_exn (IndexError m) = Inr m"
| "str_exn (AttributeError m) = Inr m"
| "str_exn (TypeError m) = Inr m"
| "str_exn (Error (Some m)) = Inr m"
| "str_exn (Error None) = Inl (TypeError ''__str__ returned non-string (type NoneType)'')"
| "str_exn KeyboardInterrupt = Inr []"
| "str_exn SystemExit = Inr []"

text \<open>\<^verbatim>\<open>row[i]\<close> for a non-negative index: out of range raises.\<close>

definition py_index :: "row \<Rightarrow> nat \<Rightarrow> exn + pyval" where
  "py_index r i = (if i < length r then Inr (r ! i) else Inl (IndexError ''tuple index out of range''))"

fun type_name :: "pyval \<Rightarrow> string" where
  "type_name PNone = ''NoneType''"
| "type_name (PBool b) = ''bool''"
| "type_name (PInt i) = ''int''"
| "type_name (PStr s) = ''str''"
| "type_name (PList xs) = ''list''"
| "type_name (PDict kvs) = ''dict''"

text \<open>A name between single quotes, as Python's messages print it.\<close>

definition quoted :: "string \<Rightarrow> string" where
  "quoted s = CHR 0x27 # s @ [CHR 0x27]"

text \<open>\<^verbatim>\<open>v.startswith(p)\<close>: defined on strings only, an \<^verbatim>\<open>AttributeError\<close> on every other value.\<close>

definition py_startswith :: "pyval \<Rightarrow> string \<Rightarrow> exn + bool" where
  "py_startswith v p =
     (case v of
        PStr s \<Rightarrow> Inr (prefix p s)
      | _ \<Rightarrow> Inl (AttributeError
               (quoted (type_name v) @ '' object has no attribute '' @ quoted ''startswith'')))"

text \<open>
  \<^verbatim>\<open>s.replace(old, new)\<close>: one pass from the left over the original string, replacing
  each occurrence found and resuming right after it. \<open>replace_from\<close> is the pass for a
  non-empty pattern \<open>a # as\<close>; with the empty pattern Python puts \<open>new\<close> before every
  character and at the end.
\<close>

fun replace_from :: "char \<Rightarrow> string \<Rightarrow> string \<Rightarrow> string \<Rightarrow> string" where
  "replace_from a as new [] = []"
| "replace_from a as new (c # cs) =
     (if c = a \<and> prefix as cs
      then new @ replace_from a as new (drop (length as) cs)
      else c # replace_from a as new cs)"

definition str_replace :: "string \<Rightarrow> string \<Rightarrow> string \<Rightarrow> string" where
  "str_replace s old new =
     (case old of
        [] \<Rightarrow> new @ concat (map (\<lambda>c. c # new) s)
      | a # as \<Rightarrow> replace_from a as new s)"

text \<open>An f-string field \<^verbatim>\<open>{x}\<close> for an optional string: \<^verbatim>\<open>None\<close> prints as its name.\<close>

fun fmt_opt :: "string option \<Rightarrow> string" where
  "fmt_opt None = ''None''"
| "fmt_opt (Some s) = s"

text \<open>Python's \<^verbatim>\<open>not\<close> on an optional string.\<close>

definition py_not :: "string option \<Rightarrow> bool" where
  "py_not x = (\<not> truthy_opt x)"

text \<open>Sequencing of pure steps that may raise: the first exception ends the computation.\<close>

definition bind_exn :: "exn + 'a \<Rightarrow> ('a \<Rightarrow> exn + 'b) \<Rightarrow> exn + 'b" where
  "bind_exn m f = (case m of Inl e \<Rightarrow> Inl e | Inr x \<Rightarrow> f x)"

section \<open>The SQL client as a collaborator\<close>

text \<open>
  The program talks to the warehouse through \<^verbatim>\<open>databricks.sql\<close>: connect, cursor, execute,
  description, fetchall, fetchmany, close. Every call the program issues is recorded in the
  world, oldest first, whether it faults or not; the world also counts the connections
  and cursors that are open. The library and the warehouse behind it are a parameter: an
  \<open>engine\<close> answers each call from the calls issued before it and the call's arguments,
  with a fault (an exception) or a result. Nothing else is assumed of it.
\<close>

datatype event =
    Connect string "string option" "string option"
  | NewWorkspaceClient "string option" "string option"
  | OpenCursor
  | Execute string
  | Fetchall
  | Fetchmany int
  | CloseCursor
  | CloseConnection

record world =
  calls :: "event list"
  open_connections :: nat
  open_cursors :: nat

text \<open>
  An entry of \<^verbatim>\<open>cursor.description\<close> is a 7-tuple. Its first item is the column name; the
  other six are kept as they are.
\<close>

type_synonym col_desc = "string \<times> pyval list"

record engine =
  on_connect :: "event list \<Rightarrow> string \<Rightarrow> string option \<Rightarrow> string option \<Rightarrow> exn option"
  on_workspace_client :: "event list \<Rightarrow> string option \<Rightarrow> string option \<Rightarrow> exn option"
  on_cursor :: "event list \<Rightarrow> exn option"
  on_execute :: "event list \<Rightarrow> string \<Rightarrow> exn option"
  description_of :: "event list \<Rightarrow> col_desc list option"
  on_fetchall :: "event list \<Rightarrow> exn + row list"
  on_fetchmany :: "event list \<Rightarrow> int \<Rightarrow> exn + row list"
  on_close_cursor :: "event list \<Rightarrow> exn option"
  on_close_connection :: "event list \<Rightarrow> exn option"

datatype connection = Connection
datatype cursor = Cursor
datatype workspace_client = WorkspaceClient

text \<open>
  A Python computation: from a world to a raised exception or a returned value, and the
  world it leaves.
\<close>

type_synonym 'a py = "world \<Rightarrow> (exn + 'a) \<times> world"

definition return_py :: "'a \<Rightarrow> 'a py" where
  "return_py x = (\<lambda>w. (Inr x, w))"

definition raise_py :: "exn \<Rightarrow> 'a py" where
  "raise_py e = (\<lambda>w. (Inl e, w))"

definition bind_py :: "'a py \<Rightarrow> ('a \<Rightarrow> 'b py) \<Rightarrow> 'b py" where
  "bind_py m f = (\<lambda>w. case m w of (Inl e, w') \<Rightarrow> (Inl e, w') | (Inr x, w') \<Rightarrow> f x w')"

text \<open>A pure step that may raise, run inside a computation.\<close>

definition lift_exn :: "exn + 'a \<Rightarrow> 'a py" where
  "lift_exn r = (\<lambda>w. (r, w))"

text \<open>
  \<^verbatim>\<open>try: body  except Exception as e: handler\<close>. An exception that is an instance of
  \<^verbatim>\<open>Exception\<close> goes to the handler, which runs in the world the body left when it raised
  and is not protected itself; any other exception leaves the statement.
\<close>

definition try_except :: "'a py \<Rightarrow> (exn \<Rightarrow> 'a py) \<Rightarrow> 'a py" where
  "try_except body handler =
     (\<lambda>w. case body w of
            (Inl e, w') \<Rightarrow> if is_Exception e then handler e w' else (Inl e, w')
          | (Inr x, w') \<Rightarrow> (Inr x, w'))"

definition logged :: "event \<Rightarrow> world \<Rightarrow> world" where
  "logged ev w = w\<lparr>calls := calls w @ [ev]\<rparr>"

text \<open>\<^verbatim>\<open>sql.connect(server_hostname=..., http_path=..., access_token=...)\<close>\<close>

definition sql_connect :: "engine \<Rightarrow> string \<Rightarrow> string option \<Rightarrow> string option \<Rightarrow> connection py" where
  "sql_connect eng server_hostname http_path access_token =
     (\<lambda>w. let w' = logged (Connect server_hostname http_path access_token) w in
        case on_connect eng (calls w) server_hostname http_path access_token of
          Some e \<Rightarrow> (Inl e, w')
        | None \<Rightarrow> (Inr Connection, w'\<lparr>open_connections := Suc (open_connections w')\<rparr>))"

text \<open>\<^verbatim>\<open>WorkspaceClient(host=..., token=...)\<close>\<close>

definition new_workspace_client :: "engine \<Rightarrow> string option \<Rightarrow> string option \<Rightarrow> workspace_client py" where
  "new_workspace_client eng host token =
     (\<lambda>w. let w' = logged (NewWorkspaceClient host token) w in
        case on_workspace_client eng (calls w) host token of
          Some e \<Rightarrow> (Inl e, w')
        | None \<Rightarrow> (Inr WorkspaceClient, w'))"

text \<open>\<^verbatim>\<open>connection.cursor()\<close>\<close>

definition connection_cursor :: "engine \<Rightarrow> connection \<Rightarrow> cursor py" where
  "connection_cursor eng connection =
     (\<lambda>w. let w' = logged OpenCursor w in
        case on_cursor eng (calls w) of
          Some e \<Rightarrow> (Inl e, w')
        | None \<Rightarrow> (Inr Cursor, w'\<lparr>open_cursors := Suc (open_cursors w')\<rparr>))"

text \<open>\<^verbatim>\<open>cursor.execute(query)\<close>\<close>

definition cursor_execute :: "engine \<Rightarrow> cursor \<Rightarrow> string \<Rightarrow> unit py" where
  "cursor_execute eng cursor query =
     (\<lambda>w. let w' = logged (Execute query) w in
        case on_execute eng (calls w) query of
          Some e \<Rightarrow> (Inl e, w')
        | None \<Rightarrow> (Inr (), w'))"

text \<open>\<^verbatim>\<open>cursor.description\<close>: an attribute read, no call to the warehouse.\<close>

definition cursor_description :: "engine \<Rightarrow> cursor \<Rightarrow> col_desc list option py" where
  "cursor_description eng cursor = (\<lambda>w. (Inr (description_of eng (calls w)), w))"

text \<open>\<^verbatim>\<open>cursor.fetchall()\<close>\<close>

definition cursor_fetchall :: "engine \<Rightarrow> cursor \<Rightarrow> row list py" where
  "cursor_fetchall eng cursor = (\<lambda>w. (on_fetchall eng (calls w), logged Fetchall w))"

text \<open>\<^verbatim>\<open>cursor.fetchmany(n)\<close>\<close>

definition cursor_fetchmany :: "engine \<Rightarrow> cursor \<Rightarrow> int \<Rightarrow> row list py" where
  "cursor_fetchmany eng cursor n = (\<lambda>w. (on_fetchmany eng (calls w) n, logged (Fetchmany n) w))"

text \<open>\<^verbatim>\<open>cursor.close()\<close>\<close>

definition cursor_close :: "engine \<Rightarrow> cursor \<Rightarrow> unit py" where
  "cursor_close eng cursor =
     (\<lambda>w. let w' = logged CloseCursor w in
        case on_close_cursor eng (calls w) of
          Some e \<Rightarrow> (Inl e, w')
        | None \<Rightarrow> (Inr (), w'\<lparr>open_cursors := open_cursors w' - 1\<rparr>))"

text \<open>\<^verbatim>\<open>connection.close()\<close>\<close>

definition connection_close :: "engine \<Rightarrow> connection \<Rightarrow> unit py" where
  "connection_close eng connection =
     (\<lambda>w. let w' = logged CloseConnection w in
        case on_close_connection eng (calls w) of
          Some e \<Rightarrow> (Inl e, w')
        | None \<Rightarrow> (Inr (), w'\<lparr>open_connections := open_connections w' - 1\<rparr>))"

section \<open>The program\<close>

text \<open>
  The five settings read from the environment at start-up; \<^verbatim>\<open>os.getenv\<close> gives \<^verbatim>\<open>None\<close>
  for a variable that is not set.
\<close>

record config =
  DATABRICKS_HOST :: "string option"
  DATABRICKS_TOKEN :: "string option"
  DATABRICKS_HTTP_PATH :: "string option"
  DATABRICKS_CATALOG :: "string option"
  DATABRICKS_SCHEMA :: "string option"

definition missing_sql_settings :: string where
  "missing_sql_settings =
     ''Missing required environment variables: DATABRICKS_HOST, '' @
     ''DATABRICKS_TOKEN, and DATABRICKS_HTTP_PATH must be set''"

definition missing_workspace_settings :: string where
  "missing_workspace_settings =
     ''Missing required environment variables: DATABRICKS_HOST and '' @
     ''DATABRICKS_TOKEN must be set''"

text \<open>\<^verbatim>\<open>DATABRICKS_HOST.replace("https://", "")\<close>; on \<^verbatim>\<open>None\<close> the attribute is missing.\<close>

definition host_replace :: "string option \<Rightarrow> exn + string" where
  "host_replace host =
     (case host of
        None \<Rightarrow> Inl (AttributeError
                 (quoted ''NoneType'' @ '' object has no attribute '' @ quoted ''replace''))
      | Some h \<Rightarrow> Inr (str_replace h ''https://'' []))"

definition get_databricks_connection :: "engine \<Rightarrow> config \<Rightarrow> connection py" where
  "get_databricks_connection eng cfg =
     (if \<not> list_all truthy_opt [DATABRICKS_HOST cfg, DATABRICKS_TOKEN cfg, DATABRICKS_HTTP_PATH cfg]
      then raise_py (ValueError missing_sql_settings)
      else bind_py (lift_exn (host_replace (DATABRICKS_HOST cfg))) (\<lambda>server_hostname.
           sql_connect eng server_hostname (DATABRICKS_HTTP_PATH cfg) (DATABRICKS_TOKEN cfg)))"

definition get_workspace_client :: "engine \<Rightarrow> config \<Rightarrow> workspace_client py" where
  "get_workspace_client eng cfg =
     (if \<not> list_all truthy_opt [DATABRICKS_HOST cfg, DATABRICKS_TOKEN cfg]
      then raise_py (ValueError missing_workspace_settings)
      else new_workspace_client eng (DATABRICKS_HOST cfg) (DATABRICKS_TOKEN cfg))"

definition missing_catalog_schema :: string where
  "missing_catalog_schema =
     ''Catalog and schema must be provided either as parameters or via '' @
     ''DATABRICKS_CATALOG and DATABRICKS_SCHEMA environment variables''"

text \<open>
  The loop of \<^verbatim>\<open>get_table_schema\<close> over the rows of \<^verbatim>\<open>DESCRIBE TABLE\<close>, \<open>columns\<close> being the
  list built so far. \<^verbatim>\<open>row[0] and not row[0].startswith("#")\<close> stops at a falsy \<^verbatim>\<open>row[0]\<close>.
\<close>

fun schema_columns :: "row list \<Rightarrow> pyval list \<Rightarrow> exn + pyval list" where
  "schema_columns [] columns = Inr columns"
| "schema_columns (row # results) columns =
     bind_exn (py_index row 0) (\<lambda>name.
       if \<not> truthy name then schema_columns results columns
       else bind_exn (py_startswith name ''#'') (\<lambda>is_comment.
         if is_comment then schema_columns results columns
         else bind_exn (py_index row 1) (\<lambda>type.
              bind_exn (if length row > 2 then py_index row 2 else Inr PNone) (\<lambda>comment.
              schema_columns results
                (columns @ [PDict [(''name'', name), (''type'', type), (''comment'', comment)]])))))"

definition get_table_schema ::
  "engine \<Rightarrow> config \<Rightarrow> string \<Rightarrow> string option \<Rightarrow> string option \<Rightarrow> pydict py" where
  "get_table_schema eng cfg table catalog0 schema0 =
     (let catalog = py_or catalog0 (DATABRICKS_CATALOG cfg);
          schema = py_or schema0 (DATABRICKS_SCHEMA cfg)
      in
      if py_not catalog \<or> py_not schema then
        return_py [(''error'', PStr missing_catalog_schema), (''table'', PStr table)]
      else
        try_except
          (bind_py (get_databricks_connection eng cfg) (\<lambda>connection.
           bind_py (connection_cursor eng connection) (\<lambda>cursor.
           let full_table_name = fmt_opt catalog @ ''.'' @ fmt_opt schema @ ''.'' @ table;
               query = ''DESCRIBE TABLE '' @ full_table_name
           in
           bind_py (cursor_execute eng cursor query) (\<lambda>_.
           bind_py (cursor_fetchall eng cursor) (\<lambda>results.
           bind_py (lift_exn (schema_columns results [])) (\<lambda>columns.
           bind_py (cursor_close eng cursor) (\<lambda>_.
           bind_py (connection_close eng connection) (\<lambda>_.
           return_py
             [(''catalog'', of_opt catalog),
              (''schema'', of_opt schema),
              (''table'', PStr table),
              (''full_name'', PStr full_table_name),
              (''columns'', PList columns)]))))))))
          (\<lambda>e. bind_py (lift_exn (str_exn e)) (\<lambda>message.
             return_py
               [(''error'', PStr message),
                (''catalog'', of_opt catalog),
                (''schema'', of_opt schema),
                (''table'', PStr table)])))"

text \<open>
  \<^verbatim>\<open>[desc[0] for desc in cursor.description] if cursor.description else []\<close>: \<^verbatim>\<open>None\<close> and
  the empty list are both falsy.
\<close>

definition column_names :: "col_desc list option \<Rightarrow> string list" where
  "column_names description =
     (case description of
        None \<Rightarrow> []
      | Some ds \<Rightarrow> if ds \<noteq> [] then map fst ds else [])"

text \<open>
  \<^verbatim>\<open>for i, col in enumerate(columns): row_dict[col] = row[i]\<close>. Assigning to a key the
  dictionary already holds replaces its value in place; a new key goes to the end.
\<close>

fun row_dict_of :: "(nat \<times> string) list \<Rightarrow> row \<Rightarrow> pydict \<Rightarrow> exn + pydict" where
  "row_dict_of [] row row_dict = Inr row_dict"
| "row_dict_of ((i, col) # rest) row row_dict =
     bind_exn (py_index row i) (\<lambda>v. row_dict_of rest row (AList.update col v row_dict))"

fun query_rows :: "string list \<Rightarrow> row list \<Rightarrow> pyval list \<Rightarrow> exn + pyval list" where
  "query_rows columns [] rows = Inr rows"
| "query_rows columns (row # results) rows =
     bind_exn (row_dict_of (List.enumerate 0 columns) row []) (\<lambda>row_dict.
     query_rows columns results (rows @ [PDict row_dict]))"

definition execute_sql_query :: "engine \<Rightarrow> config \<Rightarrow> string \<Rightarrow> int \<Rightarrow> pydict py" where
  "execute_sql_query eng cfg query max_rows =
     try_except
       (bind_py (get_databricks_connection eng cfg) (\<lambda>connection.
        bind_py (connection_cursor eng connection) (\<lambda>cursor.
        bind_py (cursor_execute eng cursor query) (\<lambda>_.
        bind_py (cursor_description eng cursor) (\<lambda>description.
        let columns = column_names description in
        bind_py (cursor_fetchmany eng cursor max_rows) (\<lambda>results.
        bind_py (lift_exn (query_rows columns results [])) (\<lambda>rows.
        bind_py (cursor_close eng cursor) (\<lambda>_.
        bind_py (connection_close eng connection) (\<lambda>_.
        return_py
          [(''query'', PStr query),
           (''columns'', PList (map PStr columns)),
           (''rows'', PList rows),
           (''row_count'', PInt (int (length rows))),
           (''truncated'', PBool (int (length rows) \<ge> max_rows))])))))))))
       (\<lambda>e. bind_py (lift_exn (str_exn e)) (\<lambda>message.
          return_py [(''error'', PStr message), (''query'', PStr query)]))"

text \<open>The loop of \<^verbatim>\<open>list_tables\<close> over the rows of \<^verbatim>\<open>SHOW TABLES\<close>.\<close>

fun table_infos :: "row list \<Rightarrow> pyval list \<Rightarrow> exn + pyval list" where
  "table_infos [] tables = Inr tables"
| "table_infos (row # results) tables =
     bind_exn (py_index row 1) (\<lambda>name.
     bind_exn (if length row > 2 then py_index row 2 else Inr (PBool False)) (\<lambda>is_temporary.
     table_infos results (tables @ [PDict [(''name'', name), (''is_temporary'', is_temporary)]])))"

definition list_tables :: "engine \<Rightarrow> config \<Rightarrow> string option \<Rightarrow> string option \<Rightarrow> pydict py" where
  "list_tables eng cfg catalog0 schema0 =
     (let catalog = py_or catalog0 (DATABRICKS_CATALOG cfg);
          schema = py_or schema0 (DATABRICKS_SCHEMA cfg)
      in
      if py_not catalog \<or> py_not schema then
        return_py [(''error'', PStr missing_catalog_schema)]
      else
        try_except
          (bind_py (get_databricks_connection eng cfg) (\<lambda>connection.
           bind_py (connection_cursor eng connection) (\<lambda>cursor.
           let query = ''SHOW TABLES IN '' @ fmt_opt catalog @ ''.'' @ fmt_opt schema in
           bind_py (cursor_execute eng cursor query) (\<lambda>_.
           bind_py (cursor_fetchall eng cursor) (\<lambda>results.
           bind_py (lift_exn (table_infos results [])) (\<lambda>tables.
           bind_py (cursor_close eng cursor) (\<lambda>_.
           bind_py (connection_close eng connection) (\<lambda>_.
           return_py
             [(''catalog'', of_opt catalog),
              (''schema'', of_opt schema),
              (''tables'', PList tables),
              (''table_count'', PInt (int (length tables))),
              (''usage_hint'', PStr (''To query these tables, use the full name: '' @
                  fmt_opt catalog @ ''.'' @ fmt_opt schema @ ''.<table_name>''))]))))))))
          (\<lambda>e. bind_py (lift_exn (str_exn e)) (\<lambda>message.
             return_py
               [(''error'', PStr message),
                (''catalog'', of_opt catalog),
                (''schema'', of_opt schema)])))"

section \<open>Vocabulary of the properties\<close>

text \<open>
  The calls an entry point has issued when it starts to fetch: connect with the host as
  \<open>get_databricks_connection\<close> passes it, open a cursor, execute the statement.
\<close>

definition opening_calls :: "config \<Rightarrow> string \<Rightarrow> event list" where
  "opening_calls cfg query =
     [Connect (case DATABRICKS_HOST cfg of None \<Rightarrow> [] | Some h \<Rightarrow> str_replace h ''https://'' [])
        (DATABRICKS_HTTP_PATH cfg) (DATABRICKS_TOKEN cfg),
      OpenCursor,
      Execute query]"

text \<open>
  The three-level name \<open>get_table_schema\<close> builds from its arguments and the defaults, and
  the statement it sends.
\<close>

definition full_table_name :: "config \<Rightarrow> string \<Rightarrow> string option \<Rightarrow> string option \<Rightarrow> string" where
  "full_table_name cfg table catalog0 schema0 =
     fmt_opt (py_or catalog0 (DATABRICKS_CATALOG cfg)) @ ''.'' @
       fmt_opt (py_or schema0 (DATABRICKS_SCHEMA cfg)) @ ''.'' @ table"

definition describe_query :: "config \<Rightarrow> string \<Rightarrow> string option \<Rightarrow> string option \<Rightarrow> string" where
  "describe_query cfg table catalog0 schema0 =
     ''DESCRIBE TABLE '' @ full_table_name cfg table catalog0 schema0"

text \<open>An ErrorResult: a dictionary whose \<^verbatim>\<open>error\<close> entry is a string.\<close>

definition is_error_result :: "pydict \<Rightarrow> bool" where
  "is_error_result d = (case map_of d ''error'' of Some (PStr m) \<Rightarrow> True | _ \<Rightarrow> False)"

text \<open>The keys of the three success mappings, in the order the program writes them.\<close>

definition schema_keys :: "string list" where
  "schema_keys = [''catalog'', ''schema'', ''table'', ''full_name'', ''columns'']"

definition query_keys :: "string list" where
  "query_keys = [''query'', ''columns'', ''rows'', ''row_count'', ''truncated'']"

definition tables_keys :: "string list" where
  "tables_keys = [''catalog'', ''schema'', ''tables'', ''table_count'', ''usage_hint'']"

text \<open>A setting or argument that is not set or empty.\<close>

definition absent :: "string option \<Rightarrow> bool" where
  "absent x = (x = None \<or> x = Some [])"

text \<open>
  The contract of \<^verbatim>\<open>fetchmany(n)\<close> on the client's side: whenever it returns, it returns at
  most \<open>n\<close> rows.
\<close>

definition fetchmany_capped :: "engine \<Rightarrow> bool" where
  "fetchmany_capped eng = (\<forall>h n rows. on_fetchmany eng h n = Inr rows \<longrightarrow> int (length rows) \<le> n)"

text \<open>
  An exception the handlers of the entry points can turn into an ErrorResult: an instance
  of \<^verbatim>\<open>Exception\<close> whose \<^verbatim>\<open>str\<close> is a string.
\<close>

definition printable :: "exn \<Rightarrow> bool" where
  "printable e = (is_Exception e \<and> (case str_exn e of Inl e' \<Rightarrow> False | Inr m \<Rightarrow> True))"

text \<open>An engine all of whose faults are such exceptions.\<close>

definition faults_printable :: "engine \<Rightarrow> bool" where
  "faults_printable eng =
     ((\<forall>h server_hostname http_path access_token e.
          on_connect eng h server_hostname http_path access_token = Some e \<longrightarrow> printable e) \<and>
      (\<forall>h e. on_cursor eng h = Some e \<longrightarrow> printable e) \<and>
      (\<forall>h query e. on_execute eng h query = Some e \<longrightarrow> printable e) \<and>
      (\<forall>h e. on_fetchall eng h = Inl e \<longrightarrow> printable e) \<and>
      (\<forall>h n e. on_fetchmany eng h n = Inl e \<longrightarrow> printable e) \<and>
      (\<forall>h e. on_close_cursor eng h = Some e \<longrightarrow> printable e) \<and>
      (\<forall>h e. on_close_connection eng h = Some e \<longrightarrow> printable e))"

text \<open>A computation that raises nothing but exceptions with the property \<open>P\<close>.\<close>

definition raises_only :: "(exn \<Rightarrow> bool) \<Rightarrow> 'a py \<Rightarrow> bool" where
  "raises_only P m = (\<forall>w e w'. m w = (Inl e, w') \<longrightarrow> P e)"

text \<open>
  What the loop of \<open>get_table_schema\<close> does with one row, read off its body: the row is
  kept when its first field is a non-empty string that does not start with \<^verbatim>\<open>#\<close>, and a
  kept row becomes one entry of \<^verbatim>\<open>columns\<close>.
\<close>

fun kept_row :: "row \<Rightarrow> bool" where
  "kept_row (PStr s # others) = (s \<noteq> [] \<and> \<not> prefix ''#'' s)"
| "kept_row others = False"

definition column_entry :: "row \<Rightarrow> pyval" where
  "column_entry row =
     PDict [(''name'', row ! 0), (''type'', row ! 1),
            (''comment'', if length row > 2 then row ! 2 else PNone)]"

text \<open>
  The column list as the specification words it: every row is a column unless its name
  starts with \<^verbatim>\<open>#\<close>.
\<close>

fun starts_with_hash :: "row \<Rightarrow> bool" where
  "starts_with_hash (PStr s # others) = prefix ''#'' s"
| "starts_with_hash others = False"

definition spec_columns :: "row list \<Rightarrow> pyval list" where
  "spec_columns rows = map column_entry (filter (\<lambda>row. \<not> starts_with_hash row) rows)"

text \<open>
  The host as the specification words it: a leading \<^verbatim>\<open>https://\<close> removed, the rest
  unchanged.
\<close>

definition strip_leading_https :: "string \<Rightarrow> string" where
  "strip_leading_https h = (if prefix ''https://'' h then drop 8 h else h)"

section \<open>Concrete collaborators\<close>

text \<open>
  An engine that accepts every call: \<open>description\<close> is the metadata of the statement,
  \<open>rows\<close> its result. \<^verbatim>\<open>fetchall\<close> returns the rows; \<^verbatim>\<open>fetchmany(n)\<close> returns the first
  \<open>n\<close> of them and rejects a negative \<open>n\<close>, as the Databricks client does.
\<close>

definition scripted_engine :: "col_desc list option \<Rightarrow> row list \<Rightarrow> engine" where
  "scripted_engine description rows =
     \<lparr> on_connect = (\<lambda>h server_hostname http_path access_token. None),
       on_workspace_client = (\<lambda>h host token. None),
       on_cursor = (\<lambda>h. None),
       on_execute = (\<lambda>h query. None),
       description_of = (\<lambda>h. description),
       on_fetchall = (\<lambda>h. Inr rows),
       on_fetchmany = (\<lambda>h n.
          if n < 0 then Inl (ValueError ''size argument for fetchmany must be >= 0'')
          else Inr (take (nat n) rows)),
       on_close_cursor = (\<lambda>h. None),
       on_close_connection = (\<lambda>h. None) \<rparr>"

text \<open>The same engine, except that every statement is refused.\<close>

definition refusing_engine :: engine where
  "refusing_engine =
     (scripted_engine None [])\<lparr> on_execute := (\<lambda>h query. Some (Error (Some ''PERMISSION_DENIED''))) \<rparr>"

definition demo_config :: config where
  "demo_config =
     \<lparr> DATABRICKS_HOST = Some ''https://adb.example.net'',
       DATABRICKS_TOKEN = Some ''dapi-token'',
       DATABRICKS_HTTP_PATH = Some ''/sql/1.0/warehouses/w1'',
       DATABRICKS_CATALOG = None,
       DATABRICKS_SCHEMA = None \<rparr>"

definition fresh_world :: world where
  "fresh_world = \<lparr> calls = [], open_connections = 0, open_cursors = 0 \<rparr>"

text \<open>The rows of the \<^verbatim>\<open>DESCRIBE TABLE\<close> scenario, and a small query result.\<close>

definition users_rows :: "row list" where
  "users_rows =
     [[PStr ''id'', PStr ''bigint'', PNone],
      [PStr ''name'', PStr ''string'', PNone],
      [PStr ''# Partitioning'', PStr [], PStr []]]"

definition describe_description :: "col_desc list option" where
  "describe_description = Some [(''col_name'', []), (''data_type'', []), (''comment'', [])]"

definition t_description :: "col_desc list option" where
  "t_description = Some [(''id'', []), (''name'', [])]"

definition t_rows :: "row list" where
  "t_rows = [[PInt 1, PStr ''a''], [PInt 2, PStr ''b'']]"

definition t_query :: string where
  "t_query = ''SELECT * FROM main.default.t''"

text \<open>A \<^verbatim>\<open>DESCRIBE TABLE\<close> answer with a row whose name is empty.\<close>

definition unnamed_rows :: "row list" where
  "unnamed_rows =
     [[PStr ''id'', PStr ''bigint'', PNone],
      [PStr [], PStr ''int'', PNone],
      [PStr ''name'', PStr ''string'', PNone]]"

text \<open>The opening calls under \<open>demo_config\<close>.\<close>

definition demo_connect :: event where
  "demo_connect = Connect ''adb.example.net'' (Some ''/sql/1.0/warehouses/w1'') (Some ''dapi-token'')"

text \<open>
  Engines that accept every call but the statement: one is interrupted while it executes,
  the other raises the client's \<open>Error\<close> built without a message.
\<close>

definition interrupted_engine :: engine where
  "interrupted_engine =
     (scripted_engine None [])\<lparr> on_execute := (\<lambda>h query. Some KeyboardInterrupt) \<rparr>"

definition speechless_engine :: engine where
  "speechless_engine =
     (scripted_engine None [])\<lparr> on_execute := (\<lambda>h query. Some (Error None)) \<rparr>"

text \<open>A configuration whose host has \<^verbatim>\<open>https://\<close> in front and once more inside.\<close>

definition proxied_config :: config where
  "proxied_config =
     demo_config\<lparr> DATABRICKS_HOST := Some ''https://gw.example.net/https://adb.example.net'' \<rparr>"

section \<open>Running the entry points\<close>

lemmas py_defs =
  return_py_def raise_py_def bind_py_def lift_exn_def try_except_def logged_def
  sql_connect_def connection_cursor_def cursor_execute_def cursor_description_def
  cursor_fetchall_def cursor_fetchmany_def cursor_close_def connection_close_def
  get_databricks_connection_def host_replace_def

text \<open>
  When an entry point returns a dictionary without an \<^verbatim>\<open>error\<close> key, every step of its
  \<^verbatim>\<open>try\<close> body went through: the dictionary and the final world are determined by what
  the engine delivered.
\<close>

lemma get_table_schema_success:
  assumes "get_table_schema eng cfg table catalog0 schema0 w = (Inr d, w')"
      and "map_of d ''error'' = None"
  shows "\<exists>results columns.
           on_fetchall eng (calls w @ opening_calls cfg (describe_query cfg table catalog0 schema0)) =
             Inr results \<and>
           schema_columns results [] = Inr columns \<and>
           d = [(''catalog'', of_opt (py_or catalog0 (DATABRICKS_CATALOG cfg))),
                (''schema'', of_opt (py_or schema0 (DATABRICKS_SCHEMA cfg))),
                (''table'', PStr table),
                (''full_name'', PStr (full_table_name cfg table catalog0 schema0)),
                (''columns'', PList columns)] \<and>
           w' = w\<lparr>calls := calls w @ opening_calls cfg (describe_query cfg table catalog0 schema0) @
                  [Fetchall, CloseCursor, CloseConnection]\<rparr>"
  using assms
  unfolding get_table_schema_def py_defs opening_calls_def describe_query_def full_table_name_def
  by (auto simp: Let_def split: sum.splits option.splits prod.splits if_splits)

lemma execute_sql_query_success:
  assumes "execute_sql_query eng cfg query max_rows w = (Inr d, w')"
      and "map_of d ''error'' = None"
  shows "\<exists>results rows.
           on_fetchmany eng (calls w @ opening_calls cfg query) max_rows = Inr results \<and>
           query_rows (column_names (description_of eng (calls w @ opening_calls cfg query)))
             results [] = Inr rows \<and>
           d = [(''query'', PStr query),
                (''columns'', PList (map PStr
                   (column_names (description_of eng (calls w @ opening_calls cfg query))))),
                (''rows'', PList rows),
                (''row_count'', PInt (int (length rows))),
                (''truncated'', PBool (int (length rows) \<ge> max_rows))] \<and>
           w' = w\<lparr>calls := calls w @ opening_calls cfg query @
                  [Fetchmany max_rows, CloseCursor, CloseConnection]\<rparr>"
  using assms
  unfolding execute_sql_query_def py_defs opening_calls_def
  by (auto simp: Let_def split: sum.splits option.splits prod.splits if_splits)

text \<open>Which exceptions the steps of an entry point can raise.\<close>

lemma printable_iff: "printable e \<longleftrightarrow> is_Exception e \<and> (\<exists>m. str_exn e = Inr m)"
  by (auto simp: printable_def split: sum.splits)

lemma raises_only_return: "raises_only P (return_py x)"
  by (simp add: raises_only_def return_py_def)

lemma raises_only_raise: "P e \<Longrightarrow> raises_only P (raise_py e)"
  by (simp add: raises_only_def raise_py_def)

lemma raises_only_lift: "(\<And>e. r = Inl e \<Longrightarrow> P e) \<Longrightarrow> raises_only P (lift_exn r)"
  by (simp add: raises_only_def lift_exn_def)

lemma raises_only_bind:
  assumes "raises_only P m" and "\<And>x. raises_only P (f x)"
  shows "raises_only P (bind_py m f)"
  using assms
  by (auto simp: raises_only_def bind_py_def split: prod.splits sum.splits)

lemma raises_only_client:
  assumes "faults_printable eng"
  shows "raises_only printable (sql_connect eng server_hostname http_path access_token)"
    and "raises_only printable (connection_cursor eng connection)"
    and "raises_only printable (cursor_execute eng cursor query)"
    and "raises_only printable (cursor_description eng cursor)"
    and "raises_only printable (cursor_fetchall eng cursor)"
    and "raises_only printable (cursor_fetchmany eng cursor n)"
    and "raises_only printable (cursor_close eng cursor)"
    and "raises_only printable (connection_close eng connection)"
  using assms
  unfolding faults_printable_def raises_only_def sql_connect_def connection_cursor_def
    cursor_execute_def cursor_description_def cursor_fetchall_def cursor_fetchmany_def
    cursor_close_def connection_close_def
  by (auto simp: Let_def split: option.splits)

lemma raises_only_connection:
  assumes "faults_printable eng"
  shows "raises_only printable (get_databricks_connection eng cfg)"
  unfolding get_databricks_connection_def
  by (auto intro!: raises_only_raise raises_only_bind raises_only_lift raises_only_client[OF assms]
           simp: printable_def host_replace_def split: option.splits)

lemma schema_columns_raises: "schema_columns results columns = Inl e \<Longrightarrow> printable e"
proof (induction results arbitrary: columns)
  case Nil
  then show ?case by simp
next
  case (Cons row results)
  then show ?case
    by (auto simp: bind_exn_def py_index_def py_startswith_def printable_def
             split: sum.splits if_splits pyval.splits)
qed

lemma row_dict_of_raises: "row_dict_of indexed row row_dict = Inl e \<Longrightarrow> printable e"
proof (induction indexed arbitrary: row_dict)
  case Nil
  then show ?case by simp
next
  case (Cons ic indexed)
  then show ?case
    by (cases ic) (auto simp: bind_exn_def py_index_def printable_def split: sum.splits if_splits)
qed

lemma query_rows_raises: "query_rows columns results rows = Inl e \<Longrightarrow> printable e"
proof (induction results arbitrary: rows)
  case Nil
  then show ?case by simp
next
  case (Cons row results)
  then show ?case
    by (auto simp: bind_exn_def split: sum.splits dest: row_dict_of_raises)
qed

lemma table_infos_raises: "table_infos results tables = Inl e \<Longrightarrow> printable e"
proof (induction results arbitrary: tables)
  case Nil
  then show ?case by simp
next
  case (Cons row results)
  then show ?case
    by (auto simp: bind_exn_def py_index_def printable_def split: sum.splits if_splits)
qed

text \<open>
  A \<^verbatim>\<open>try\<close> statement returns when its body raises printable exceptions only and its
  handler returns for each of them.
\<close>

lemma try_except_returns:
  assumes raises: "raises_only printable body"
      and handler: "\<And>e w1. printable e \<Longrightarrow> \<exists>d w2. handler e w1 = (Inr d, w2) \<and> P d"
      and body: "\<And>d w1. body w = (Inr d, w1) \<Longrightarrow> P d"
  shows "\<exists>d w'. try_except body handler w = (Inr d, w') \<and> P d"
proof (cases "body w")
  case (Pair r w1)
  show ?thesis
  proof (cases r)
    case (Inl e)
    with Pair raises have e: "printable e" by (auto simp: raises_only_def)
    then have "is_Exception e" by (simp add: printable_def)
    with Pair Inl handler[OF e, of w1] show ?thesis by (simp add: try_except_def)
  next
    case (Inr d)
    with Pair body[of d w1] show ?thesis by (simp add: try_except_def)
  qed
qed

text \<open>
  Each entry point returns a dictionary when the engine's faults are printable; the
  dictionary is an ErrorResult or the success mapping, never both.
\<close>

lemma execute_sql_query_returns:
  assumes faults: "faults_printable eng"
  shows "\<exists>d w'. execute_sql_query eng cfg query max_rows w = (Inr d, w') \<and>
      (is_error_result d \<noteq> (map fst d = query_keys))"
  unfolding execute_sql_query_def
proof (rule try_except_returns)
  show "raises_only printable
     (bind_py (get_databricks_connection eng cfg) (\<lambda>connection.
      bind_py (connection_cursor eng connection) (\<lambda>cursor.
      bind_py (cursor_execute eng cursor query) (\<lambda>_.
      bind_py (cursor_description eng cursor) (\<lambda>description.
      let columns = column_names description in
      bind_py (cursor_fetchmany eng cursor max_rows) (\<lambda>results.
      bind_py (lift_exn (query_rows columns results [])) (\<lambda>rows.
      bind_py (cursor_close eng cursor) (\<lambda>_.
      bind_py (connection_close eng connection) (\<lambda>_.
      return_py
        [(''query'', PStr query),
         (''columns'', PList (map PStr columns)),
         (''rows'', PList rows),
         (''row_count'', PInt (int (length rows))),
         (''truncated'', PBool (int (length rows) \<ge> max_rows))])))))))))"
    unfolding Let_def
    by (intro raises_only_bind raises_only_return raises_only_lift
          raises_only_connection[OF faults] raises_only_client[OF faults])
       (rule query_rows_raises)
next
  fix e w1
  assume "printable e"
  then obtain m where "str_exn e = Inr m" by (auto simp: printable_iff)
  then show "\<exists>d w2. bind_py (lift_exn (str_exn e)) (\<lambda>message.
          return_py [(''error'', PStr message), (''query'', PStr query)]) w1 = (Inr d, w2) \<and>
          (is_error_result d \<noteq> (map fst d = query_keys))"
    by (simp add: bind_py_def lift_exn_def return_py_def is_error_result_def query_keys_def)
next
  fix d w1
  assume "bind_py (get_databricks_connection eng cfg) (\<lambda>connection.
        bind_py (connection_cursor eng connection) (\<lambda>cursor.
        bind_py (cursor_execute eng cursor query) (\<lambda>_.
        bind_py (cursor_description eng cursor) (\<lambda>description.
        let columns = column_names description in
        bind_py (cursor_fetchmany eng cursor max_rows) (\<lambda>results.
        bind_py (lift_exn (query_rows columns results [])) (\<lambda>rows.
        bind_py (cursor_close eng cursor) (\<lambda>_.
        bind_py (connection_close eng connection) (\<lambda>_.
        return_py
          [(''query'', PStr query),
           (''columns'', PList (map PStr columns)),
           (''rows'', PList rows),
           (''row_count'', PInt (int (length rows))),
           (''truncated'', PBool (int (length rows) \<ge> max_rows))])))))))) w = (Inr d, w1)"
  then show "is_error_result d \<noteq> (map fst d = query_keys)"
    unfolding py_defs is_error_result_def query_keys_def
    by (auto simp: Let_def split: sum.splits option.splits prod.splits if_splits)
qed

lemma get_table_schema_returns:
  assumes faults: "faults_printable eng"
  shows "\<exists>d w'. get_table_schema eng cfg table catalog0 schema0 w = (Inr d, w') \<and>
      (is_error_result d \<noteq> (map fst d = schema_keys))"
proof (cases "py_not (py_or catalog0 (DATABRICKS_CATALOG cfg)) \<or>
              py_not (py_or schema0 (DATABRICKS_SCHEMA cfg))")
  case True
  then show ?thesis
    by (simp add: get_table_schema_def Let_def return_py_def is_error_result_def schema_keys_def)
next
  case False
  have "\<exists>d w'. try_except
          (bind_py (get_databricks_connection eng cfg) (\<lambda>connection.
           bind_py (connection_cursor eng connection) (\<lambda>cursor.
           bind_py (cursor_execute eng cursor (describe_query cfg table catalog0 schema0)) (\<lambda>_.
           bind_py (cursor_fetchall eng cursor) (\<lambda>results.
           bind_py (lift_exn (schema_columns results [])) (\<lambda>columns.
           bind_py (cursor_close eng cursor) (\<lambda>_.
           bind_py (connection_close eng connection) (\<lambda>_.
           return_py
             [(''catalog'', of_opt (py_or catalog0 (DATABRICKS_CATALOG cfg))),
              (''schema'', of_opt (py_or schema0 (DATABRICKS_SCHEMA cfg))),
              (''table'', PStr table),
              (''full_name'', PStr (full_table_name cfg table catalog0 schema0)),
              (''columns'', PList columns)]))))))))
          (\<lambda>e. bind_py (lift_exn (str_exn e)) (\<lambda>message.
             return_py
               [(''error'', PStr message),
                (''catalog'', of_opt (py_or catalog0 (DATABRICKS_CATALOG cfg))),
                (''schema'', of_opt (py_or schema0 (DATABRICKS_SCHEMA cfg))),
                (''table'', PStr table)])) w = (Inr d, w') \<and>
          (is_error_result d \<noteq> (map fst d = schema_keys))"
  proof (rule try_except_returns)
    show "raises_only printable
          (bind_py (get_databricks_connection eng cfg) (\<lambda>connection.
           bind_py (connection_cursor eng connection) (\<lambda>cursor.
           bind_py (cursor_execute eng cursor (describe_query cfg table catalog0 schema0)) (\<lambda>_.
           bind_py (cursor_fetchall eng cursor) (\<lambda>results.
           bind_py (lift_exn (schema_columns results [])) (\<lambda>columns.
           bind_py (cursor_close eng cursor) (\<lambda>_.
           bind_py (connection_close eng connection) (\<lambda>_.
           return_py
             [(''catalog'', of_opt (py_or catalog0 (DATABRICKS_CATALOG cfg))),
              (''schema'', of_opt (py_or schema0 (DATABRICKS_SCHEMA cfg))),
              (''table'', PStr table),
              (''full_name'', PStr (full_table_name cfg table catalog0 schema0)),
              (''columns'', PList columns)]))))))))"
      by (intro raises_only_bind raises_only_return raises_only_lift
            raises_only_connection[OF faults] raises_only_client[OF faults])
         (rule schema_columns_raises)
  next
    fix e w1
    assume "printable e"
    then obtain m where "str_exn e = Inr m" by (auto simp: printable_iff)
    then show "\<exists>d w2. bind_py (lift_exn (str_exn e)) (\<lambda>message.
             return_py
               [(''error'', PStr message),
                (''catalog'', of_opt (py_or catalog0 (DATABRICKS_CATALOG cfg))),
                (''schema'', of_opt (py_or schema0 (DATABRICKS_SCHEMA cfg))),
                (''table'', PStr table)]) w1 = (Inr d, w2) \<and>
            (is_error_result d \<noteq> (map fst d = schema_keys))"
      by (simp add: bind_py_def lift_exn_def return_py_def is_error_result_def schema_keys_def)
  next
    fix d w1
    assume "bind_py (get_databricks_connection eng cfg) (\<lambda>connection.
           bind_py (connection_cursor eng connection) (\<lambda>cursor.
           bind_py (cursor_execute eng cursor (describe_query cfg table catalog0 schema0)) (\<lambda>_.
           bind_py (cursor_fetchall eng cursor) (\<lambda>results.
           bind_py (lift_exn (schema_columns results [])) (\<lambda>columns.
           bind_py (cursor_close eng cursor) (\<lambda>_.
           bind_py (connection_close eng connection) (\<lambda>_.
           return_py
             [(''catalog'', of_opt (py_or catalog0 (DATABRICKS_CATALOG cfg))),
              (''schema'', of_opt (py_or schema0 (DATABRICKS_SCHEMA cfg))),
              (''table'', PStr table),
              (''full_name'', PStr (full_table_name cfg table catalog0 schema0)),
              (''columns'', PList columns)]))))))) w = (Inr d, w1)"
    then show "is_error_result d \<noteq> (map fst d = schema_keys)"
      unfolding py_defs is_error_result_def schema_keys_def
      by (auto simp: Let_def split: sum.splits option.splits prod.splits if_splits)
  qed
  with False show ?thesis
    by (simp add: get_table_schema_def Let_def describe_query_def full_table_name_def)
qed

lemma list_tables_returns:
  assumes faults: "faults_printable eng"
  shows "\<exists>d w'. list_tables eng cfg catalog0 schema0 w = (Inr d, w') \<and>
      (is_error_result d \<noteq> (map fst d = tables_keys))"
proof (cases "py_not (py_or catalog0 (DATABRICKS_CATALOG cfg)) \<or>
              py_not (py_or schema0 (DATABRICKS_SCHEMA cfg))")
  case True
  then show ?thesis
    by (simp add: list_tables_def Let_def return_py_def is_error_result_def tables_keys_def)
next
  case False
  define catalog where "catalog = py_or catalog0 (DATABRICKS_CATALOG cfg)"
  define schema where "schema = py_or schema0 (DATABRICKS_SCHEMA cfg)"
  have "\<exists>d w'. try_except
          (bind_py (get_databricks_connection eng cfg) (\<lambda>connection.
           bind_py (connection_cursor eng connection) (\<lambda>cursor.
           bind_py (cursor_execute eng cursor
                      (''SHOW TABLES IN '' @ fmt_opt catalog @ ''.'' @ fmt_opt schema)) (\<lambda>_.
           bind_py (cursor_fetchall eng cursor) (\<lambda>results.
           bind_py (lift_exn (table_infos results [])) (\<lambda>tables.
           bind_py (cursor_close eng cursor) (\<lambda>_.
           bind_py (connection_close eng connection) (\<lambda>_.
           return_py
             [(''catalog'', of_opt catalog),
              (''schema'', of_opt schema),
              (''tables'', PList tables),
              (''table_count'', PInt (int (length tables))),
              (''usage_hint'', PStr (''To query these tables, use the full name: '' @
                  fmt_opt catalog @ ''.'' @ fmt_opt schema @ ''.<table_name>''))]))))))))
          (\<lambda>e. bind_py (lift_exn (str_exn e)) (\<lambda>message.
             return_py
               [(''error'', PStr message),
                (''catalog'', of_opt catalog),
                (''schema'', of_opt schema)])) w = (Inr d, w') \<and>
          (is_error_result d \<noteq> (map fst d = tables_keys))"
  proof (rule try_except_returns)
    show "raises_only printable
          (bind_py (get_databricks_connection eng cfg) (\<lambda>connection.
           bind_py (connection_cursor eng connection) (\<lambda>cursor.
           bind_py (cursor_execute eng cursor
                      (''SHOW TABLES IN '' @ fmt_opt catalog @ ''.'' @ fmt_opt schema)) (\<lambda>_.
           bind_py (cursor_fetchall eng cursor) (\<lambda>results.
           bind_py (lift_exn (table_infos results [])) (\<lambda>tables.
           bind_py (cursor_close eng cursor) (\<lambda>_.
           bind_py (connection_close eng connection) (\<lambda>_.
           return_py
             [(''catalog'', of_opt catalog),
              (''schema'', of_opt schema),
              (''tables'', PList tables),
              (''table_count'', PInt (int (length tables))),
              (''usage_hint'', PStr (''To query these tables, use the full name: '' @
                  fmt_opt catalog @ ''.'' @ fmt_opt schema @ ''.<table_name>''))]))))))))"
      by (intro raises_only_bind raises_only_return raises_only_lift
            raises_only_connection[OF faults] raises_only_client[OF faults])
         (rule table_infos_raises)
  next
    fix e w1
    assume "printable e"
    then obtain m where "str_exn e = Inr m" by (auto simp: printable_iff)
    then show "\<exists>d w2. bind_py (lift_exn (str_exn e)) (\<lambda>message.
             return_py
               [(''error'', PStr message),
                (''catalog'', of_opt catalog),
                (''schema'', of_opt schema)]) w1 = (Inr d, w2) \<and>
            (is_error_result d \<noteq> (map fst d = tables_keys))"
      by (simp add: bind_py_def lift_exn_def return_py_def is_error_result_def tables_keys_def)
  next
    fix d w1
    assume "bind_py (get_databricks_connection eng cfg) (\<lambda>connection.
           bind_py (connection_cursor eng connection) (\<lambda>cursor.
           bind_py (cursor_execute eng cursor
                      (''SHOW TABLES IN '' @ fmt_opt catalog @ ''.'' @ fmt_opt schema)) (\<lambda>_.
           bind_py (cursor_fetchall eng cursor) (\<lambda>results.
           bind_py (lift_exn (table_infos results [])) (\<lambda>tables.
           bind_py (cursor_close eng cursor) (\<lambda>_.
           bind_py (connection_close eng connection) (\<lambda>_.
           return_py
             [(''catalog'', of_opt catalog),
              (''schema'', of_opt schema),
              (''tables'', PList tables),
              (''table_count'', PInt (int (length tables))),
              (''usage_hint'', PStr (''To query these tables, use the full name: '' @
                  fmt_opt catalog @ ''.'' @ fmt_opt schema @ ''.<table_name>''))]))))))) w = (Inr d, w1)"
    then show "is_error_result d \<noteq> (map fst d = tables_keys)"
      unfolding py_defs is_error_result_def tables_keys_def
      by (auto simp: Let_def split: sum.splits option.splits prod.splits if_splits)
  qed
  with False show ?thesis
    by (simp add: list_tables_def Let_def catalog_def schema_def)
qed

section \<open>The loops\<close>

text \<open>The row loop of \<open>execute_sql_query\<close> adds one dictionary per fetched row.\<close>

lemma query_rows_length:
  "query_rows columns results rows = Inr rows' \<Longrightarrow> length rows' = length rows + length results"
proof (induction results arbitrary: rows)
  case Nil
  then show ?case by simp
next
  case (Cons row results)
  from Cons.prems obtain row_dict where
    rest: "query_rows columns results (rows @ [PDict row_dict]) = Inr rows'"
    by (auto simp: bind_exn_def split: sum.splits)
  from Cons.IH[OF rest] show ?case by simp
qed

text \<open>
  The column loop of \<open>get_table_schema\<close>, when it does not raise, appends the entries of
  the kept rows, in order.
\<close>

lemma schema_columns_kept:
  "schema_columns results columns = Inr columns' \<Longrightarrow>
     columns' = columns @ map column_entry (filter kept_row results)"
proof (induction results arbitrary: columns)
  case Nil
  then show ?case by simp
next
  case (Cons row results)
  show ?case
  proof (cases row)
    case Nil
    with Cons.prems show ?thesis by (simp add: bind_exn_def py_index_def)
  next
    case (Cons name others)
    note row = this
    show ?thesis
    proof (cases "kept_row row")
      case True
      then obtain s where name: "name = PStr s" and s: "s \<noteq> []" "\<not> prefix ''#'' s"
        using row by (cases name) auto
      from Cons.prems row name s obtain type others' where others: "others = type # others'"
        by (cases others) (auto simp: bind_exn_def py_index_def py_startswith_def)
      from Cons.prems row name s others
      have "schema_columns results (columns @ [column_entry row]) = Inr columns'"
        by (auto simp: bind_exn_def py_index_def py_startswith_def column_entry_def
                 split: if_splits)
      from Cons.IH[OF this] True show ?thesis by simp
    next
      case False
      with Cons.prems row have "schema_columns results columns = Inr columns'"
        by (cases name)
           (auto simp: bind_exn_def py_index_def py_startswith_def split: if_splits)
      from Cons.IH[OF this] False show ?thesis by simp
    qed
  qed
qed

text \<open>A row whose first field is falsy is passed over: the loop goes on as if it were not there.\<close>

lemma schema_columns_skip:
  "\<not> truthy name \<Longrightarrow>
     schema_columns (before @ (name # others) # after) columns =
     schema_columns (before @ after) columns"
proof (induction before arbitrary: columns)
  case Nil
  then show ?case by (simp add: bind_exn_def py_index_def)
next
  case (Cons row before)
  then show ?case by (simp add: bind_exn_def cong: sum.case_cong if_cong)
qed

section \<open>Replacing in strings\<close>

lemma replace_from_absent:
  "\<not> sublist (a # as) s \<Longrightarrow> replace_from a as new s = s"
proof (induction s)
  case Nil
  then show ?case by simp
next
  case (Cons c cs)
  from Cons.prems have no_prefix: "\<not> (c = a \<and> prefix as cs)"
    by (auto simp: sublist_Cons_right)
  from Cons.prems have "\<not> sublist (a # as) cs"
    by (auto simp: sublist_Cons_right)
  with Cons.IH no_prefix show ?case by auto
qed

lemma replace_from_leading:
  "replace_from a as new ((a # as) @ t) = new @ replace_from a as new t"
  by simp

lemma str_replace_https_absent:
  "\<not> sublist ''https://'' h \<Longrightarrow> str_replace h ''https://'' [] = h"
  by (simp add: str_replace_def replace_from_absent)

lemma str_replace_https_leading:
  "\<not> sublist ''https://'' t \<Longrightarrow> str_replace (''https://'' @ t) ''https://'' [] = t"
  using replace_from_leading[of "CHR ''h''" "''ttps://''" "[]" t]
  by (simp add: str_replace_def replace_from_absent)

lemma prefix_inside:
  assumes "prefix p (x @ p @ v)" and "x \<noteq> []"
  shows "prefix p (x @ butlast p)"
proof (cases "p = []")
  case True
  then show ?thesis by simp
next
  case False
  then have split: "x @ p @ v = (x @ butlast p) @ (last p # v)" by simp
  have "prefix (x @ butlast p) (x @ p @ v)"
    unfolding split by (rule prefixI) simp
  moreover from \<open>x \<noteq> []\<close> False have "length p \<le> length (x @ butlast p)"
    by (cases x) auto
  ultimately show ?thesis using assms(1) by (rule_tac prefix_length_prefix)
qed

lemma replace_from_leftmost:
  "\<not> sublist (a # as) (u @ butlast (a # as)) \<Longrightarrow>
     replace_from a as new (u @ (a # as) @ v) = u @ new @ replace_from a as new v"
proof (induction u)
  case Nil
  then show ?case by simp
next
  case (Cons c u)
  from Cons.prems have no_prefix: "\<not> prefix (a # as) ((c # u) @ butlast (a # as))"
    and rest: "\<not> sublist (a # as) (u @ butlast (a # as))"
    by (auto simp: sublist_Cons_right)
  have "\<not> prefix (a # as) ((c # u) @ (a # as) @ v)"
    using no_prefix prefix_inside[of "a # as" "c # u" v] by blast
  then have "\<not> (c = a \<and> prefix as (u @ (a # as) @ v))" by auto
  with Cons.IH[OF rest] show ?case by auto
qed

lemma str_replace_https_leftmost:
  "\<not> sublist ''https://'' (u @ ''https:/'') \<Longrightarrow>
     str_replace (u @ ''https://'' @ v) ''https://'' [] = u @ str_replace v ''https://'' []"
  using replace_from_leftmost[of "CHR ''h''" "''ttps://''" u "[]" v]
  by (simp add: str_replace_def)

section \<open>Evaluating concrete calls\<close>

lemmas run_defs =
  py_defs get_table_schema_def execute_sql_query_def list_tables_def get_workspace_client_def
  new_workspace_client_def scripted_engine_def refusing_engine_def demo_config_def
  fresh_world_def demo_connect_def t_query_def t_rows_def t_description_def
  describe_description_def opening_calls_def describe_query_def full_table_name_def
  column_names_def bind_exn_def py_index_def py_startswith_def str_replace_def
  py_or_def py_not_def truthy_opt_def absent_def Let_def

lemma scripted_engine_capped: "fetchmany_capped (scripted_engine description rows)"
  by (auto simp: fetchmany_capped_def scripted_engine_def split: if_splits)

section \<open>Properties of the specification\<close>

lemma scripted_engine_printable: "faults_printable (scripted_engine description rows)"
  by (auto simp: faults_printable_def scripted_engine_def printable_def split: if_splits)

text \<open>
  C1, as amended. When every fault the SQL client raises is an instance of \<^verbatim>\<open>Exception\<close>
  whose \<^verbatim>\<open>str\<close> is a string, each of \<open>get_table_schema\<close>, \<open>execute_sql_query\<close> and
  \<open>list_tables\<close> returns a dictionary and does not raise, for every configuration and
  argument, whatever the client answers at connection construction, statement execution
  or fetching and whatever the rows hold; and the dictionary is exactly one of the two: an
  ErrorResult (its \<^verbatim>\<open>error\<close> entry is a string), or the success mapping of that entry point
  (its keys are the success keys, none of which is \<^verbatim>\<open>error\<close>).
\<close>

theorem entry_points_return_result_or_error:
  assumes faults: "faults_printable eng"
  shows "(\<exists>d w'. get_table_schema eng cfg table catalog0 schema0 w = (Inr d, w') \<and>
            (is_error_result d \<noteq> (map fst d = schema_keys))) \<and>
         (\<exists>d w'. execute_sql_query eng cfg query max_rows w = (Inr d, w') \<and>
            (is_error_result d \<noteq> (map fst d = query_keys))) \<and>
         (\<exists>d w'. list_tables eng cfg catalog1 schema1 w = (Inr d, w') \<and>
            (is_error_result d \<noteq> (map fst d = tables_keys)))"
  using get_table_schema_returns[OF faults, of cfg table catalog0 schema0 w]
        execute_sql_query_returns[OF faults, of cfg query max_rows w]
        list_tables_returns[OF faults, of cfg catalog1 schema1 w]
  by (intro conjI)

text \<open>
  Three faults that end as an ErrorResult: the token is unset (connection construction),
  the client rejects a negative size (fetching), a row of \<^verbatim>\<open>SHOW TABLES\<close> has one field
  only (parsing).
\<close>

theorem entry_points_return_result_or_error_witness:
  "faults_printable (scripted_engine t_description [[PStr ''default'']]) \<and>
   get_table_schema (scripted_engine t_description [[PStr ''default'']])
       (demo_config\<lparr>DATABRICKS_TOKEN := None\<rparr>) ''users'' (Some ''main'') (Some ''default'')
       fresh_world =
     (Inr [(''error'', PStr missing_sql_settings),
           (''catalog'', PStr ''main''),
           (''schema'', PStr ''default''),
           (''table'', PStr ''users'')],
      fresh_world) \<and>
   execute_sql_query (scripted_engine t_description [[PStr ''default'']]) demo_config t_query (- 1)
       fresh_world =
     (Inr [(''error'', PStr ''size argument for fetchmany must be >= 0''),
           (''query'', PStr t_query)],
      \<lparr>calls = [demo_connect, OpenCursor, Execute t_query, Fetchmany (- 1)],
       open_connections = 1, open_cursors = 1\<rparr>) \<and>
   list_tables (scripted_engine t_description [[PStr ''default'']]) demo_config
       (Some ''main'') (Some ''default'') fresh_world =
     (Inr [(''error'', PStr ''tuple index out of range''),
           (''catalog'', PStr ''main''),
           (''schema'', PStr ''default'')],
      \<lparr>calls = [demo_connect, OpenCursor, Execute ''SHOW TABLES IN main.default'', Fetchall],
       open_connections = 1, open_cursors = 1\<rparr>) \<and>
   is_error_result [(''error'', PStr ''tuple index out of range''),
           (''catalog'', PStr ''main''),
           (''schema'', PStr ''default'')]"
proof -
  have faults: "faults_printable (scripted_engine t_description [[PStr ''default'']])"
    by (rule scripted_engine_printable)
  have schema: "get_table_schema (scripted_engine t_description [[PStr ''default'']])
       (demo_config\<lparr>DATABRICKS_TOKEN := None\<rparr>) ''users'' (Some ''main'') (Some ''default'')
       fresh_world =
     (Inr [(''error'', PStr missing_sql_settings),
           (''catalog'', PStr ''main''),
           (''schema'', PStr ''default''),
           (''table'', PStr ''users'')],
      fresh_world)"
    by (simp add: run_defs)
  have query: "execute_sql_query (scripted_engine t_description [[PStr ''default'']]) demo_config
       t_query (- 1) fresh_world =
     (Inr [(''error'', PStr ''size argument for fetchmany must be >= 0''),
           (''query'', PStr t_query)],
      \<lparr>calls = [demo_connect, OpenCursor, Execute t_query, Fetchmany (- 1)],
       open_connections = 1, open_cursors = 1\<rparr>)"
    by (simp add: run_defs)
  have tables: "list_tables (scripted_engine t_description [[PStr ''default'']]) demo_config
       (Some ''main'') (Some ''default'') fresh_world =
     (Inr [(''error'', PStr ''tuple index out of range''),
           (''catalog'', PStr ''main''),
           (''schema'', PStr ''default'')],
      \<lparr>calls = [demo_connect, OpenCursor, Execute ''SHOW TABLES IN main.default'', Fetchall],
       open_connections = 1, open_cursors = 1\<rparr>)"
    by (simp add: run_defs)
  from entry_points_return_result_or_error[OF faults, of demo_config "''users''"
         "Some ''main''" "Some ''default''" fresh_world t_query "- 1"
         "Some ''main''" "Some ''default''"]
  obtain d w' where
    "list_tables (scripted_engine t_description [[PStr ''default'']]) demo_config
       (Some ''main'') (Some ''default'') fresh_world = (Inr d, w')"
    "is_error_result d \<noteq> (map fst d = tables_keys)"
    by blast
  with tables have "is_error_result [(''error'', PStr ''tuple index out of range''),
           (''catalog'', PStr ''main''),
           (''schema'', PStr ''default'')] \<noteq>
       (map fst [(''error'', PStr ''tuple index out of range''),
           (''catalog'', PStr ''main''),
           (''schema'', PStr ''default'')] = tables_keys)"
    by simp
  then have "is_error_result [(''error'', PStr ''tuple index out of range''),
           (''catalog'', PStr ''main''),
           (''schema'', PStr ''default'')]"
    by (simp add: tables_keys_def)
  with faults schema query tables show ?thesis
    by (intro conjI)
qed

text \<open>
  C1 as stated fails. An interrupt that arrives while the statement executes is no
  instance of \<^verbatim>\<open>Exception\<close>, so \<^verbatim>\<open>except Exception\<close> lets it pass and \<open>execute_sql_query\<close>
  raises \<^verbatim>\<open>KeyboardInterrupt\<close>. And when the client raises its \<open>Error\<close> without a message,
  the handler's own \<^verbatim>\<open>str(e)\<close> raises \<^verbatim>\<open>TypeError\<close>, which nothing catches.
\<close>

theorem entry_points_return_result_or_error_counterexample:
  "execute_sql_query interrupted_engine demo_config t_query 1000 fresh_world =
     (Inl KeyboardInterrupt,
      \<lparr>calls = [demo_connect, OpenCursor, Execute t_query],
       open_connections = 1, open_cursors = 1\<rparr>) \<and>
   execute_sql_query speechless_engine demo_config t_query 1000 fresh_world =
     (Inl (TypeError ''__str__ returned non-string (type NoneType)''),
      \<lparr>calls = [demo_connect, OpenCursor, Execute t_query],
       open_connections = 1, open_cursors = 1\<rparr>)"
  by (simp add: run_defs interrupted_engine_def speechless_engine_def)

text \<open>
  C2. For every successful call \<open>execute_sql_query q N\<close> (the returned dictionary has no
  \<^verbatim>\<open>error\<close> key) against an engine whose \<^verbatim>\<open>fetchmany\<close> honours its size argument: the only
  fetch the call issues is \<^verbatim>\<open>fetchmany(N)\<close>, the returned \<^verbatim>\<open>rows\<close> list has at most \<open>N\<close>
  entries, \<^verbatim>\<open>row_count\<close> is its length, and \<^verbatim>\<open>truncated\<close> is true if and only if that
  length equals \<open>N\<close>.
\<close>

theorem execute_sql_query_rows_capped:
  assumes capped: "fetchmany_capped eng"
      and run: "execute_sql_query eng cfg query N w = (Inr d, w')"
      and ok: "map_of d ''error'' = None"
  shows "\<exists>rows. map_of d ''rows'' = Some (PList rows) \<and>
           int (length rows) \<le> N \<and>
           map_of d ''row_count'' = Some (PInt (int (length rows))) \<and>
           map_of d ''truncated'' = Some (PBool (int (length rows) = N)) \<and>
           calls w' = calls w @ opening_calls cfg query @ [Fetchmany N, CloseCursor, CloseConnection]"
proof -
  from execute_sql_query_success[OF run ok] obtain results rows where
    fetched: "on_fetchmany eng (calls w @ opening_calls cfg query) N = Inr results" and
    looped: "query_rows (column_names (description_of eng (calls w @ opening_calls cfg query)))
               results [] = Inr rows" and
    d: "d = [(''query'', PStr query),
             (''columns'', PList (map PStr
                (column_names (description_of eng (calls w @ opening_calls cfg query))))),
             (''rows'', PList rows),
             (''row_count'', PInt (int (length rows))),
             (''truncated'', PBool (int (length rows) \<ge> N))]" and
    w': "w' = w\<lparr>calls := calls w @ opening_calls cfg query @
                 [Fetchmany N, CloseCursor, CloseConnection]\<rparr>"
    by blast
  from query_rows_length[OF looped] have len: "length rows = length results" by simp
  from capped fetched have "int (length results) \<le> N"
    unfolding fetchmany_capped_def by blast
  with len have le: "int (length rows) \<le> N" by simp
  then have "(int (length rows) \<ge> N) = (int (length rows) = N)" by auto
  with d w' le show ?thesis by simp
qed

theorem execute_sql_query_rows_capped_witness:
  "fetchmany_capped (scripted_engine t_description t_rows) \<and>
   execute_sql_query (scripted_engine t_description t_rows) demo_config t_query 2 fresh_world =
     (Inr [(''query'', PStr t_query),
           (''columns'', PList [PStr ''id'', PStr ''name'']),
           (''rows'', PList [PDict [(''id'', PInt 1), (''name'', PStr ''a'')],
                            PDict [(''id'', PInt 2), (''name'', PStr ''b'')]]),
           (''row_count'', PInt 2),
           (''truncated'', PBool True)],
      \<lparr>calls = [demo_connect, OpenCursor, Execute t_query, Fetchmany 2, CloseCursor, CloseConnection],
       open_connections = 0, open_cursors = 0\<rparr>) \<and>
   (\<exists>rows. map_of [(''query'', PStr t_query),
           (''columns'', PList [PStr ''id'', PStr ''name'']),
           (''rows'', PList [PDict [(''id'', PInt 1), (''name'', PStr ''a'')],
                            PDict [(''id'', PInt 2), (''name'', PStr ''b'')]]),
           (''row_count'', PInt 2),
           (''truncated'', PBool True)] ''rows'' = Some (PList rows) \<and>
      int (length rows) \<le> 2)"
proof -
  have capped: "fetchmany_capped (scripted_engine t_description t_rows)"
    by (rule scripted_engine_capped)
  have run: "execute_sql_query (scripted_engine t_description t_rows) demo_config t_query 2 fresh_world =
     (Inr [(''query'', PStr t_query),
           (''columns'', PList [PStr ''id'', PStr ''name'']),
           (''rows'', PList [PDict [(''id'', PInt 1), (''name'', PStr ''a'')],
                            PDict [(''id'', PInt 2), (''name'', PStr ''b'')]]),
           (''row_count'', PInt 2),
           (''truncated'', PBool True)],
      \<lparr>calls = [demo_connect, OpenCursor, Execute t_query, Fetchmany 2, CloseCursor, CloseConnection],
       open_connections = 0, open_cursors = 0\<rparr>)"
    by (simp add: run_defs)
  have ok: "map_of [(''query'', PStr t_query),
           (''columns'', PList [PStr ''id'', PStr ''name'']),
           (''rows'', PList [PDict [(''id'', PInt 1), (''name'', PStr ''a'')],
                            PDict [(''id'', PInt 2), (''name'', PStr ''b'')]]),
           (''row_count'', PInt 2),
           (''truncated'', PBool True)] ''error'' = None"
    by simp
  from execute_sql_query_rows_capped[OF capped run ok] capped run show ?thesis
    by blast
qed

text \<open>
  C3, as amended. For every successful \<open>get_table_schema\<close> call, \<^verbatim>\<open>columns\<close> holds, in the
  order the engine delivered them, one \<open>{name, type, comment}\<close> entry for each row whose
  name is a non-empty string that does not start with \<^verbatim>\<open>#\<close>, and nothing else: rows whose
  name starts with \<^verbatim>\<open>#\<close> are excluded, and so are rows whose name is empty or \<^verbatim>\<open>None\<close>.
\<close>

theorem get_table_schema_columns:
  assumes run: "get_table_schema eng cfg table catalog0 schema0 w = (Inr d, w')"
      and ok: "map_of d ''error'' = None"
      and fetched: "on_fetchall eng
                      (calls w @ opening_calls cfg (describe_query cfg table catalog0 schema0)) =
                    Inr results"
  shows "map_of d ''columns'' = Some (PList (map column_entry (filter kept_row results)))"
proof -
  from get_table_schema_success[OF run ok] fetched obtain columns where
    looped: "schema_columns results [] = Inr columns" and
    d: "map_of d ''columns'' = Some (PList columns)"
    by auto
  from schema_columns_kept[OF looped] d show ?thesis by simp
qed

text \<open>
  The scenario of the specification: \<^verbatim>\<open>describeTable("users", "main", "default")\<close> with the
  engine returning \<^verbatim>\<open>id\<close>, \<^verbatim>\<open>name\<close> and a \<^verbatim>\<open># Partitioning\<close> line.
\<close>

theorem get_table_schema_columns_witness:
  "get_table_schema (scripted_engine describe_description users_rows) demo_config
       ''users'' (Some ''main'') (Some ''default'') fresh_world =
     (Inr [(''catalog'', PStr ''main''),
           (''schema'', PStr ''default''),
           (''table'', PStr ''users''),
           (''full_name'', PStr ''main.default.users''),
           (''columns'', PList
              [PDict [(''name'', PStr ''id''), (''type'', PStr ''bigint''), (''comment'', PNone)],
               PDict [(''name'', PStr ''name''), (''type'', PStr ''string''), (''comment'', PNone)]])],
      \<lparr>calls = [demo_connect, OpenCursor, Execute ''DESCRIBE TABLE main.default.users'',
                Fetchall, CloseCursor, CloseConnection],
       open_connections = 0, open_cursors = 0\<rparr>) \<and>
   on_fetchall (scripted_engine describe_description users_rows)
       (calls fresh_world @
        opening_calls demo_config (describe_query demo_config ''users'' (Some ''main'') (Some ''default''))) =
     Inr users_rows \<and>
   map column_entry (filter kept_row users_rows) =
     [PDict [(''name'', PStr ''id''), (''type'', PStr ''bigint''), (''comment'', PNone)],
      PDict [(''name'', PStr ''name''), (''type'', PStr ''string''), (''comment'', PNone)]]"
proof -
  have run: "get_table_schema (scripted_engine describe_description users_rows) demo_config
       ''users'' (Some ''main'') (Some ''default'') fresh_world =
     (Inr [(''catalog'', PStr ''main''),
           (''schema'', PStr ''default''),
           (''table'', PStr ''users''),
           (''full_name'', PStr ''main.default.users''),
           (''columns'', PList
              [PDict [(''name'', PStr ''id''), (''type'', PStr ''bigint''), (''comment'', PNone)],
               PDict [(''name'', PStr ''name''), (''type'', PStr ''string''), (''comment'', PNone)]])],
      \<lparr>calls = [demo_connect, OpenCursor, Execute ''DESCRIBE TABLE main.default.users'',
                Fetchall, CloseCursor, CloseConnection],
       open_connections = 0, open_cursors = 0\<rparr>)"
    by (simp add: run_defs users_rows_def)
  have fetched: "on_fetchall (scripted_engine describe_description users_rows)
       (calls fresh_world @
        opening_calls demo_config (describe_query demo_config ''users'' (Some ''main'') (Some ''default''))) =
     Inr users_rows"
    by (simp add: scripted_engine_def)
  from get_table_schema_columns[OF run _ fetched] run fetched show ?thesis
    by simp
qed

text \<open>
  C3 as stated fails: a row with an empty name does not start with \<^verbatim>\<open>#\<close>, so the claim
  lists it among the columns, and the program leaves it out.
\<close>

theorem get_table_schema_columns_counterexample:
  "get_table_schema (scripted_engine describe_description [[PStr [], PStr ''int'', PNone]])
       demo_config ''users'' (Some ''main'') (Some ''default'') fresh_world =
     (Inr [(''catalog'', PStr ''main''),
           (''schema'', PStr ''default''),
           (''table'', PStr ''users''),
           (''full_name'', PStr ''main.default.users''),
           (''columns'', PList [])],
      \<lparr>calls = [demo_connect, OpenCursor, Execute ''DESCRIBE TABLE main.default.users'',
                Fetchall, CloseCursor, CloseConnection],
       open_connections = 0, open_cursors = 0\<rparr>) \<and>
   spec_columns [[PStr [], PStr ''int'', PNone]] =
     [PDict [(''name'', PStr []), (''type'', PStr ''int''), (''comment'', PNone)]] \<and>
   spec_columns [[PStr [], PStr ''int'', PNone]] \<noteq> []"
  by (simp add: run_defs spec_columns_def column_entry_def)

text \<open>
  C4. When, after the configured defaults are substituted, the catalog or the schema is
  still unset or empty, \<open>get_table_schema\<close> and \<open>list_tables\<close> return the ErrorResult with
  the fixed message naming catalog and schema, and leave the world as it was: no call is
  issued to the engine, no connection is opened. \<open>get_table_schema\<close> echoes the table;
  the ErrorResult of \<open>list_tables\<close> has the \<^verbatim>\<open>error\<close> entry only.
\<close>

theorem catalog_or_schema_missing:
  assumes "(absent catalog0 \<and> absent (DATABRICKS_CATALOG cfg)) \<or>
           (absent schema0 \<and> absent (DATABRICKS_SCHEMA cfg))"
  shows "get_table_schema eng cfg table catalog0 schema0 w =
           (Inr [(''error'', PStr missing_catalog_schema), (''table'', PStr table)], w) \<and>
         list_tables eng cfg catalog0 schema0 w =
           (Inr [(''error'', PStr missing_catalog_schema)], w) \<and>
         sublist ''Catalog'' missing_catalog_schema \<and>
         sublist ''schema'' missing_catalog_schema"
proof -
  from assms have guard:
    "py_not (py_or catalog0 (DATABRICKS_CATALOG cfg)) \<or> py_not (py_or schema0 (DATABRICKS_SCHEMA cfg))"
    by (auto simp: absent_def py_not_def py_or_def truthy_opt_def)
  have named: "sublist ''Catalog'' missing_catalog_schema"
    by (simp add: missing_catalog_schema_def sublist_Cons_right)
  have named': "sublist ''schema'' missing_catalog_schema"
    by (simp add: missing_catalog_schema_def sublist_Cons_right)
  from guard named named' show ?thesis
    by (simp add: get_table_schema_def list_tables_def Let_def return_py_def)
qed

theorem catalog_or_schema_missing_witness:
  "((absent (Some ''main'') \<and> absent (DATABRICKS_CATALOG demo_config)) \<or>
    (absent None \<and> absent (DATABRICKS_SCHEMA demo_config))) \<and>
   get_table_schema refusing_engine demo_config ''users'' (Some ''main'') None fresh_world =
     (Inr [(''error'', PStr missing_catalog_schema), (''table'', PStr ''users'')], fresh_world) \<and>
   list_tables refusing_engine demo_config (Some ''main'') None fresh_world =
     (Inr [(''error'', PStr missing_catalog_schema)], fresh_world)"
proof -
  have missing: "(absent (Some ''main'') \<and> absent (DATABRICKS_CATALOG demo_config)) \<or>
      (absent None \<and> absent (DATABRICKS_SCHEMA demo_config))"
    by (simp add: absent_def demo_config_def)
  from catalog_or_schema_missing[OF missing, of refusing_engine "''users''" fresh_world] missing
  show ?thesis by simp
qed

text \<open>
  C5. When the host, the token or the HTTP path is unset or empty,
  \<open>get_databricks_connection\<close> raises: its outcome is the exception \<^verbatim>\<open>ValueError\<close> with the
  fixed message, not a value, and the world is as it was, so nothing has been sent to the
  engine, neither a connect nor a statement. \<open>get_workspace_client\<close> raises in the same
  way when the host or the token is unset or empty. Each message contains the name of
  every variable its check covers, the missing ones among them.
\<close>

theorem missing_settings_raise:
  "(absent (DATABRICKS_HOST cfg) \<or> absent (DATABRICKS_TOKEN cfg) \<or> absent (DATABRICKS_HTTP_PATH cfg)
      \<longrightarrow> get_databricks_connection eng cfg w = (Inl (ValueError missing_sql_settings), w)) \<and>
   (absent (DATABRICKS_HOST cfg) \<or> absent (DATABRICKS_TOKEN cfg)
      \<longrightarrow> get_workspace_client eng cfg w = (Inl (ValueError missing_workspace_settings), w)) \<and>
   sublist ''DATABRICKS_HOST'' missing_sql_settings \<and>
   sublist ''DATABRICKS_TOKEN'' missing_sql_settings \<and>
   sublist ''DATABRICKS_HTTP_PATH'' missing_sql_settings \<and>
   sublist ''DATABRICKS_HOST'' missing_workspace_settings \<and>
   sublist ''DATABRICKS_TOKEN'' missing_workspace_settings"
proof -
  have falsy: "absent x \<longleftrightarrow> \<not> truthy_opt x" for x
    by (cases x) (auto simp: absent_def truthy_opt_def)
  have sql: "absent (DATABRICKS_HOST cfg) \<or> absent (DATABRICKS_TOKEN cfg) \<or> absent (DATABRICKS_HTTP_PATH cfg)
      \<longrightarrow> get_databricks_connection eng cfg w = (Inl (ValueError missing_sql_settings), w)"
    by (auto simp: falsy get_databricks_connection_def raise_py_def)
  have workspace: "absent (DATABRICKS_HOST cfg) \<or> absent (DATABRICKS_TOKEN cfg)
      \<longrightarrow> get_workspace_client eng cfg w = (Inl (ValueError missing_workspace_settings), w)"
    by (auto simp: falsy get_workspace_client_def raise_py_def)
  have names:
    "sublist ''DATABRICKS_HOST'' missing_sql_settings"
    "sublist ''DATABRICKS_TOKEN'' missing_sql_settings"
    "sublist ''DATABRICKS_HTTP_PATH'' missing_sql_settings"
    "sublist ''DATABRICKS_HOST'' missing_workspace_settings"
    "sublist ''DATABRICKS_TOKEN'' missing_workspace_settings"
    by (simp_all add: missing_sql_settings_def missing_workspace_settings_def sublist_Cons_right)
  from sql workspace names show ?thesis by blast
qed

text \<open>The scenario of the specification: the token is unset.\<close>

theorem missing_settings_raise_witness:
  "absent (DATABRICKS_TOKEN (demo_config\<lparr>DATABRICKS_TOKEN := None\<rparr>)) \<and>
   get_databricks_connection (scripted_engine t_description t_rows)
       (demo_config\<lparr>DATABRICKS_TOKEN := None\<rparr>) fresh_world =
     (Inl (ValueError missing_sql_settings), fresh_world) \<and>
   get_workspace_client (scripted_engine t_description t_rows)
       (demo_config\<lparr>DATABRICKS_TOKEN := None\<rparr>) fresh_world =
     (Inl (ValueError missing_workspace_settings), fresh_world) \<and>
   calls fresh_world = []"
proof -
  have unset: "absent (DATABRICKS_TOKEN (demo_config\<lparr>DATABRICKS_TOKEN := None\<rparr>))"
    by (simp add: absent_def)
  from missing_settings_raise[of "demo_config\<lparr>DATABRICKS_TOKEN := None\<rparr>"
         "scripted_engine t_description t_rows" fresh_world] unset
  show ?thesis by (simp add: fresh_world_def)
qed

text \<open>
  C6 fails on the code. The \<^verbatim>\<open>close\<close> calls stand at the end of the \<^verbatim>\<open>try\<close> body only, so
  a fault after the connection is opened skips them: with an engine that refuses the
  statement, \<open>execute_sql_query\<close> and \<open>get_table_schema\<close> return their ErrorResult while
  the connection and the cursor they opened are still open, and no close call was issued.
\<close>

theorem fault_leaves_connection_open:
  "execute_sql_query refusing_engine demo_config t_query 1000 fresh_world =
     (Inr [(''error'', PStr ''PERMISSION_DENIED''), (''query'', PStr t_query)],
      \<lparr>calls = [demo_connect, OpenCursor, Execute t_query],
       open_connections = 1, open_cursors = 1\<rparr>) \<and>
   get_table_schema refusing_engine demo_config ''users'' (Some ''main'') (Some ''default'') fresh_world =
     (Inr [(''error'', PStr ''PERMISSION_DENIED''),
           (''catalog'', PStr ''main''),
           (''schema'', PStr ''default''),
           (''table'', PStr ''users'')],
      \<lparr>calls = [demo_connect, OpenCursor, Execute ''DESCRIBE TABLE main.default.users''],
       open_connections = 1, open_cursors = 1\<rparr>)"
  by (simp add: run_defs)

text \<open>
  C7, as amended. For every successful \<open>execute_sql_query\<close> call to which the engine
  delivers zero rows: \<^verbatim>\<open>columns\<close> holds the names of the statement's result-set metadata
  (the empty list when there is none), \<^verbatim>\<open>rows\<close> is empty, \<^verbatim>\<open>row_count\<close> is 0, and
  \<^verbatim>\<open>truncated\<close> is false when \<open>max_rows\<close> is positive and true when it is not.
\<close>

theorem zero_rows_result:
  assumes run: "execute_sql_query eng cfg query max_rows w = (Inr d, w')"
      and ok: "map_of d ''error'' = None"
      and fetched: "on_fetchmany eng (calls w @ opening_calls cfg query) max_rows = Inr []"
  shows "map_of d ''columns'' =
           Some (PList (map PStr
             (case description_of eng (calls w @ opening_calls cfg query) of
                None \<Rightarrow> []
              | Some ds \<Rightarrow> map fst ds))) \<and>
         map_of d ''rows'' = Some (PList []) \<and>
         map_of d ''row_count'' = Some (PInt 0) \<and>
         map_of d ''truncated'' = Some (PBool (max_rows \<le> 0))"
proof -
  from execute_sql_query_success[OF run ok] fetched obtain rows where
    looped: "query_rows (column_names (description_of eng (calls w @ opening_calls cfg query)))
               [] [] = Inr rows" and
    d: "d = [(''query'', PStr query),
             (''columns'', PList (map PStr
                (column_names (description_of eng (calls w @ opening_calls cfg query))))),
             (''rows'', PList rows),
             (''row_count'', PInt (int (length rows))),
             (''truncated'', PBool (int (length rows) \<ge> max_rows))]"
    by auto
  from looped have "rows = []" by simp
  moreover have "column_names x = (case x of None \<Rightarrow> [] | Some ds \<Rightarrow> map fst ds)" for x
    by (cases x) (auto simp: column_names_def)
  ultimately show ?thesis using d by simp
qed

theorem zero_rows_result_witness:
  "execute_sql_query (scripted_engine t_description []) demo_config t_query 1000 fresh_world =
     (Inr [(''query'', PStr t_query),
           (''columns'', PList [PStr ''id'', PStr ''name'']),
           (''rows'', PList []),
           (''row_count'', PInt 0),
           (''truncated'', PBool False)],
      \<lparr>calls = [demo_connect, OpenCursor, Execute t_query, Fetchmany 1000, CloseCursor, CloseConnection],
       open_connections = 0, open_cursors = 0\<rparr>) \<and>
   on_fetchmany (scripted_engine t_description [])
       (calls fresh_world @ opening_calls demo_config t_query) 1000 = Inr [] \<and>
   map_of [(''query'', PStr t_query),
           (''columns'', PList [PStr ''id'', PStr ''name'']),
           (''rows'', PList []),
           (''row_count'', PInt 0),
           (''truncated'', PBool False)] ''truncated'' = Some (PBool ((1000::int) \<le> 0))"
proof -
  have run: "execute_sql_query (scripted_engine t_description []) demo_config t_query 1000 fresh_world =
     (Inr [(''query'', PStr t_query),
           (''columns'', PList [PStr ''id'', PStr ''name'']),
           (''rows'', PList []),
           (''row_count'', PInt 0),
           (''truncated'', PBool False)],
      \<lparr>calls = [demo_connect, OpenCursor, Execute t_query, Fetchmany 1000, CloseCursor, CloseConnection],
       open_connections = 0, open_cursors = 0\<rparr>)"
    by (simp add: run_defs)
  have fetched: "on_fetchmany (scripted_engine t_description [])
       (calls fresh_world @ opening_calls demo_config t_query) 1000 = Inr []"
    by (simp add: scripted_engine_def)
  from zero_rows_result[OF run _ fetched] run fetched show ?thesis
    by simp
qed

text \<open>
  C7 as stated fails at \<open>max_rows = 0\<close>: the call succeeds with no rows and
  \<^verbatim>\<open>truncated\<close> is true.
\<close>

theorem zero_rows_result_counterexample:
  "execute_sql_query (scripted_engine t_description []) demo_config t_query 0 fresh_world =
     (Inr [(''query'', PStr t_query),
           (''columns'', PList [PStr ''id'', PStr ''name'']),
           (''rows'', PList []),
           (''row_count'', PInt 0),
           (''truncated'', PBool True)],
      \<lparr>calls = [demo_connect, OpenCursor, Execute t_query, Fetchmany 0, CloseCursor, CloseConnection],
       open_connections = 0, open_cursors = 0\<rparr>) \<and>
   on_fetchmany (scripted_engine t_description [])
       (calls fresh_world @ opening_calls demo_config t_query) 0 = Inr []"
  by (simp add: run_defs)

text \<open>
  C8, as amended. With host, token and HTTP path set, \<open>get_databricks_connection\<close> issues
  one call, a connect whose hostname is the configured host with every occurrence of
  \<^verbatim>\<open>https://\<close> removed (\<^verbatim>\<open>str.replace\<close>: left to right, not overlapping), the path and
  the token passed as they are. Two laws fix that hostname for every host: a string in
  which \<^verbatim>\<open>https://\<close> does not occur is left as it is; and in a string \<open>u https:// v\<close>
  whose leftmost occurrence is the one shown, the occurrence is dropped, \<open>u\<close> is kept and
  \<open>v\<close> is treated in the same way. So a host that starts with \<^verbatim>\<open>https://\<close> and has no other
  occurrence is passed without that prefix, and an occurrence inside the host is removed
  as well.
\<close>

theorem hostname_passed_to_client:
  assumes host: "DATABRICKS_HOST cfg = Some h" "h \<noteq> []"
      and token: "\<not> absent (DATABRICKS_TOKEN cfg)"
      and path: "\<not> absent (DATABRICKS_HTTP_PATH cfg)"
  shows "calls (snd (get_databricks_connection eng cfg w)) =
           calls w @ [Connect (str_replace h ''https://'' [])
                        (DATABRICKS_HTTP_PATH cfg) (DATABRICKS_TOKEN cfg)] \<and>
         (\<forall>s. \<not> sublist ''https://'' s \<longrightarrow> str_replace s ''https://'' [] = s) \<and>
         (\<forall>u v. \<not> sublist ''https://'' (u @ ''https:/'') \<longrightarrow>
              str_replace (u @ ''https://'' @ v) ''https://'' [] =
              u @ str_replace v ''https://'' []) \<and>
         (\<forall>t. h = ''https://'' @ t \<and> \<not> sublist ''https://'' t \<longrightarrow>
              str_replace h ''https://'' [] = t)"
proof -
  from token have t: "truthy_opt (DATABRICKS_TOKEN cfg)"
    by (cases "DATABRICKS_TOKEN cfg") (auto simp: absent_def truthy_opt_def)
  from path have p: "truthy_opt (DATABRICKS_HTTP_PATH cfg)"
    by (cases "DATABRICKS_HTTP_PATH cfg") (auto simp: absent_def truthy_opt_def)
  from host have hh: "truthy_opt (DATABRICKS_HOST cfg)"
    by (simp add: truthy_opt_def)
  from t p hh have run: "get_databricks_connection eng cfg w =
      sql_connect eng (str_replace h ''https://'' [])
        (DATABRICKS_HTTP_PATH cfg) (DATABRICKS_TOKEN cfg) w"
    by (simp add: get_databricks_connection_def bind_py_def lift_exn_def host_replace_def host(1))
  have connect: "calls (snd (get_databricks_connection eng cfg w)) =
       calls w @ [Connect (str_replace h ''https://'' [])
                    (DATABRICKS_HTTP_PATH cfg) (DATABRICKS_TOKEN cfg)]"
    unfolding run
    by (simp add: sql_connect_def logged_def Let_def split: option.splits)
  have unchanged: "\<forall>s. \<not> sublist ''https://'' s \<longrightarrow> str_replace s ''https://'' [] = s"
    by (intro allI impI) (rule str_replace_https_absent)
  have leftmost: "\<forall>u v. \<not> sublist ''https://'' (u @ ''https:/'') \<longrightarrow>
      str_replace (u @ ''https://'' @ v) ''https://'' [] = u @ str_replace v ''https://'' []"
    by (intro allI impI) (rule str_replace_https_leftmost)
  have stripped: "\<forall>t. h = ''https://'' @ t \<and> \<not> sublist ''https://'' t \<longrightarrow>
      str_replace h ''https://'' [] = t"
  proof (intro allI impI, elim conjE)
    fix t
    assume h: "h = ''https://'' @ t" and clean: "\<not> sublist ''https://'' t"
    from str_replace_https_leading[OF clean] h show "str_replace h ''https://'' [] = t"
      by (simp only:)
  qed
  from connect unchanged leftmost stripped show ?thesis
    by (intro conjI)
qed

text \<open>
  A host with \<^verbatim>\<open>https://\<close> in front and once more inside: both occurrences go, by the two
  laws alone.
\<close>

theorem hostname_passed_to_client_witness:
  "DATABRICKS_HOST proxied_config = Some ''https://gw.example.net/https://adb.example.net'' \<and>
   ''https://gw.example.net/https://adb.example.net'' \<noteq> [] \<and>
   \<not> absent (DATABRICKS_TOKEN proxied_config) \<and>
   \<not> absent (DATABRICKS_HTTP_PATH proxied_config) \<and>
   \<not> sublist ''https://'' ([] @ ''https:/'') \<and>
   \<not> sublist ''https://'' (''gw.example.net/'' @ ''https:/'') \<and>
   \<not> sublist ''https://'' ''adb.example.net'' \<and>
   str_replace ''https://gw.example.net/https://adb.example.net'' ''https://'' [] =
     ''gw.example.net/adb.example.net'' \<and>
   calls (snd (get_databricks_connection (scripted_engine None []) proxied_config fresh_world)) =
     [Connect ''gw.example.net/adb.example.net''
        (Some ''/sql/1.0/warehouses/w1'') (Some ''dapi-token'')]"
proof -
  have host: "DATABRICKS_HOST proxied_config = Some ''https://gw.example.net/https://adb.example.net''"
             "''https://gw.example.net/https://adb.example.net'' \<noteq> []"
    by (simp_all add: proxied_config_def demo_config_def)
  have token: "\<not> absent (DATABRICKS_TOKEN proxied_config)"
    by (simp add: proxied_config_def demo_config_def absent_def)
  have path: "\<not> absent (DATABRICKS_HTTP_PATH proxied_config)"
    by (simp add: proxied_config_def demo_config_def absent_def)
  have front: "\<not> sublist ''https://'' ([] @ ''https:/'')"
    by (simp add: sublist_Cons_right)
  have inside: "\<not> sublist ''https://'' (''gw.example.net/'' @ ''https:/'')"
    by (simp add: sublist_Cons_right)
  have clean: "\<not> sublist ''https://'' ''adb.example.net''"
    by (simp add: sublist_Cons_right)
  note general = hostname_passed_to_client[OF host token path, of "scripted_engine None []" fresh_world]
  from general have connect:
    "calls (snd (get_databricks_connection (scripted_engine None []) proxied_config fresh_world)) =
       calls fresh_world @
       [Connect (str_replace ''https://gw.example.net/https://adb.example.net'' ''https://'' [])
          (DATABRICKS_HTTP_PATH proxied_config) (DATABRICKS_TOKEN proxied_config)]"
    by (rule conjunct1)
  from general have unchanged:
    "\<forall>s. \<not> sublist ''https://'' s \<longrightarrow> str_replace s ''https://'' [] = s"
    by (rule conjunct2[THEN conjunct1])
  from general have leftmost:
    "\<forall>u v. \<not> sublist ''https://'' (u @ ''https:/'') \<longrightarrow>
       str_replace (u @ ''https://'' @ v) ''https://'' [] = u @ str_replace v ''https://'' []"
    by (rule conjunct2[THEN conjunct2, THEN conjunct1])
  from leftmost front
  have "str_replace ([] @ ''https://'' @ ''gw.example.net/https://adb.example.net'') ''https://'' [] =
          [] @ str_replace ''gw.example.net/https://adb.example.net'' ''https://'' []"
    by (elim allE impE)
  then have first: "str_replace ''https://gw.example.net/https://adb.example.net'' ''https://'' [] =
      str_replace ''gw.example.net/https://adb.example.net'' ''https://'' []"
    by simp
  from leftmost inside
  have "str_replace (''gw.example.net/'' @ ''https://'' @ ''adb.example.net'') ''https://'' [] =
          ''gw.example.net/'' @ str_replace ''adb.example.net'' ''https://'' []"
    by (elim allE impE)
  then have second: "str_replace ''gw.example.net/https://adb.example.net'' ''https://'' [] =
      ''gw.example.net/'' @ str_replace ''adb.example.net'' ''https://'' []"
    by simp
  from unchanged clean
  have third: "str_replace ''adb.example.net'' ''https://'' [] = ''adb.example.net''"
    by (elim allE impE)
  have replaced: "str_replace ''https://gw.example.net/https://adb.example.net'' ''https://'' [] =
      ''gw.example.net/adb.example.net''"
    unfolding first second third by simp
  have settings: "DATABRICKS_HTTP_PATH proxied_config = Some ''/sql/1.0/warehouses/w1''"
    "DATABRICKS_TOKEN proxied_config = Some ''dapi-token''" "calls fresh_world = []"
    by (simp_all add: proxied_config_def demo_config_def fresh_world_def)
  from connect have final:
    "calls (snd (get_databricks_connection (scripted_engine None []) proxied_config fresh_world)) =
       [Connect ''gw.example.net/adb.example.net''
          (Some ''/sql/1.0/warehouses/w1'') (Some ''dapi-token'')]"
    unfolding replaced settings by simp
  from host token path front inside clean replaced final show ?thesis
    by (intro conjI)
qed

text \<open>
  C8 as stated fails: for the host \<^verbatim>\<open>https://https://adb.example.net\<close> the claim gives
  \<^verbatim>\<open>https://adb.example.net\<close> (the leading prefix removed, the rest unchanged), and the
  program connects to \<^verbatim>\<open>adb.example.net\<close>.
\<close>

theorem hostname_passed_to_client_counterexample:
  "calls (snd (get_databricks_connection (scripted_engine None [])
        (demo_config\<lparr>DATABRICKS_HOST := Some ''https://https://adb.example.net''\<rparr>) fresh_world)) =
     [Connect ''adb.example.net'' (Some ''/sql/1.0/warehouses/w1'') (Some ''dapi-token'')] \<and>
   strip_leading_https ''https://https://adb.example.net'' = ''https://adb.example.net'' \<and>
   strip_leading_https ''https://https://adb.example.net'' \<noteq> ''adb.example.net''"
  by (simp add: run_defs strip_leading_https_def)

text \<open>
  C9. In a successful \<open>get_table_schema\<close> call, a row whose first field is falsy (the
  empty string, \<^verbatim>\<open>None\<close>, and any other falsy value) is dropped without a trace: the
  returned \<^verbatim>\<open>columns\<close> are what the loop makes of the rows before and after it, and its
  own entry is not among them.
\<close>

theorem falsy_named_row_dropped:
  assumes run: "get_table_schema eng cfg table catalog0 schema0 w = (Inr d, w')"
      and ok: "map_of d ''error'' = None"
      and fetched: "on_fetchall eng
                      (calls w @ opening_calls cfg (describe_query cfg table catalog0 schema0)) =
                    Inr (before @ (name # others) # after)"
      and falsy: "\<not> truthy name"
  shows "\<exists>columns. map_of d ''columns'' = Some (PList columns) \<and>
           schema_columns (before @ after) [] = Inr columns \<and>
           columns = map column_entry (filter kept_row (before @ after)) \<and>
           column_entry (name # others) \<notin> set columns"
proof -
  from get_table_schema_success[OF run ok] fetched obtain columns where
    looped: "schema_columns (before @ (name # others) # after) [] = Inr columns" and
    d: "map_of d ''columns'' = Some (PList columns)"
    by auto
  from looped falsy have rest: "schema_columns (before @ after) [] = Inr columns"
    by (simp add: schema_columns_skip)
  from schema_columns_kept[OF rest]
  have kept: "columns = map column_entry (filter kept_row (before @ after))" by simp
  have "column_entry (name # others) \<noteq> column_entry row" if "kept_row row" for row
  proof -
    from that obtain s rest' where "row = PStr s # rest'" "s \<noteq> []"
      by (cases row rule: kept_row.cases) auto
    with falsy show ?thesis by (auto simp: column_entry_def)
  qed
  with kept have "column_entry (name # others) \<notin> set columns" by auto
  with d rest kept show ?thesis by blast
qed

theorem falsy_named_row_dropped_witness:
  "get_table_schema (scripted_engine describe_description unnamed_rows) demo_config
       ''users'' (Some ''main'') (Some ''default'') fresh_world =
     (Inr [(''catalog'', PStr ''main''),
           (''schema'', PStr ''default''),
           (''table'', PStr ''users''),
           (''full_name'', PStr ''main.default.users''),
           (''columns'', PList
              [PDict [(''name'', PStr ''id''), (''type'', PStr ''bigint''), (''comment'', PNone)],
               PDict [(''name'', PStr ''name''), (''type'', PStr ''string''), (''comment'', PNone)]])],
      \<lparr>calls = [demo_connect, OpenCursor, Execute ''DESCRIBE TABLE main.default.users'',
                Fetchall, CloseCursor, CloseConnection],
       open_connections = 0, open_cursors = 0\<rparr>) \<and>
   on_fetchall (scripted_engine describe_description unnamed_rows)
       (calls fresh_world @
        opening_calls demo_config (describe_query demo_config ''users'' (Some ''main'') (Some ''default''))) =
     Inr ([[PStr ''id'', PStr ''bigint'', PNone]] @
          (PStr [] # [PStr ''int'', PNone]) #
          [[PStr ''name'', PStr ''string'', PNone]]) \<and>
   \<not> truthy (PStr []) \<and>
   column_entry (PStr [] # [PStr ''int'', PNone]) \<notin>
     set [PDict [(''name'', PStr ''id''), (''type'', PStr ''bigint''), (''comment'', PNone)],
          PDict [(''name'', PStr ''name''), (''type'', PStr ''string''), (''comment'', PNone)]]"
proof -
  have run: "get_table_schema (scripted_engine describe_description unnamed_rows) demo_config
       ''users'' (Some ''main'') (Some ''default'') fresh_world =
     (Inr [(''catalog'', PStr ''main''),
           (''schema'', PStr ''default''),
           (''table'', PStr ''users''),
           (''full_name'', PStr ''main.default.users''),
           (''columns'', PList
              [PDict [(''name'', PStr ''id''), (''type'', PStr ''bigint''), (''comment'', PNone)],
               PDict [(''name'', PStr ''name''), (''type'', PStr ''string''), (''comment'', PNone)]])],
      \<lparr>calls = [demo_connect, OpenCursor, Execute ''DESCRIBE TABLE main.default.users'',
                Fetchall, CloseCursor, CloseConnection],
       open_connections = 0, open_cursors = 0\<rparr>)"
    by (simp add: run_defs unnamed_rows_def)
  have fetched: "on_fetchall (scripted_engine describe_description unnamed_rows)
       (calls fresh_world @
        opening_calls demo_config (describe_query demo_config ''users'' (Some ''main'') (Some ''default''))) =
     Inr ([[PStr ''id'', PStr ''bigint'', PNone]] @
          (PStr [] # [PStr ''int'', PNone]) #
          [[PStr ''name'', PStr ''string'', PNone]])"
    by (simp add: scripted_engine_def unnamed_rows_def)
  have ok: "map_of [(''catalog'', PStr ''main''),
           (''schema'', PStr ''default''),
           (''table'', PStr ''users''),
           (''full_name'', PStr ''main.default.users''),
           (''columns'', PList
              [PDict [(''name'', PStr ''id''), (''type'', PStr ''bigint''), (''comment'', PNone)],
               PDict [(''name'', PStr ''name''), (''type'', PStr ''string''), (''comment'', PNone)]])]
          ''error'' = None"
    by simp
  have falsy: "\<not> truthy (PStr [])" by simp
  from falsy_named_row_dropped[OF run ok fetched falsy] obtain columns where
    returned: "map_of [(''catalog'', PStr ''main''),
           (''schema'', PStr ''default''),
           (''table'', PStr ''users''),
           (''full_name'', PStr ''main.default.users''),
           (''columns'', PList
              [PDict [(''name'', PStr ''id''), (''type'', PStr ''bigint''), (''comment'', PNone)],
               PDict [(''name'', PStr ''name''), (''type'', PStr ''string''), (''comment'', PNone)]])]
          ''columns'' = Some (PList columns)" and
    dropped: "column_entry (PStr [] # [PStr ''int'', PNone]) \<notin> set columns"
    by blast
  from returned have listed:
    "columns = [PDict [(''name'', PStr ''id''), (''type'', PStr ''bigint''), (''comment'', PNone)],
                PDict [(''name'', PStr ''name''), (''type'', PStr ''string''), (''comment'', PNone)]]"
    by simp
  from dropped have "column_entry (PStr [] # [PStr ''int'', PNone]) \<notin>
     set [PDict [(''name'', PStr ''id''), (''type'', PStr ''bigint''), (''comment'', PNone)],
          PDict [(''name'', PStr ''name''), (''type'', PStr ''string''), (''comment'', PNone)]]"
    unfolding listed .
  with run fetched falsy show ?thesis
    by (intro conjI)
qed

text \<open>
  C10. For every successful \<open>execute_sql_query\<close> call with \<open>max_rows = 0\<close> against an
  engine whose \<^verbatim>\<open>fetchmany\<close> honours its size argument, \<^verbatim>\<open>rows\<close> is the empty list,
  \<^verbatim>\<open>row_count\<close> is 0 and \<^verbatim>\<open>truncated\<close> is true: the test \<^verbatim>\<open>len(rows) >= max_rows\<close> is
  \<open>0 \<ge> 0\<close>.
\<close>

theorem zero_cap_truncated:
  assumes capped: "fetchmany_capped eng"
      and run: "execute_sql_query eng cfg query 0 w = (Inr d, w')"
      and ok: "map_of d ''error'' = None"
  shows "map_of d ''rows'' = Some (PList []) \<and>
         map_of d ''row_count'' = Some (PInt 0) \<and>
         map_of d ''truncated'' = Some (PBool True)"
proof -
  from execute_sql_query_success[OF run ok] obtain results rows where
    fetched: "on_fetchmany eng (calls w @ opening_calls cfg query) 0 = Inr results" and
    looped: "query_rows (column_names (description_of eng (calls w @ opening_calls cfg query)))
               results [] = Inr rows" and
    d: "d = [(''query'', PStr query),
             (''columns'', PList (map PStr
                (column_names (description_of eng (calls w @ opening_calls cfg query))))),
             (''rows'', PList rows),
             (''row_count'', PInt (int (length rows))),
             (''truncated'', PBool (int (length rows) \<ge> 0))]"
    by blast
  from capped fetched have "int (length results) \<le> 0"
    unfolding fetchmany_capped_def by blast
  then have "results = []" by simp
  with looped have "rows = []" by simp
  with d show ?thesis by simp
qed

theorem zero_cap_truncated_witness:
  "fetchmany_capped (scripted_engine t_description t_rows) \<and>
   execute_sql_query (scripted_engine t_description t_rows) demo_config t_query 0 fresh_world =
     (Inr [(''query'', PStr t_query),
           (''columns'', PList [PStr ''id'', PStr ''name'']),
           (''rows'', PList []),
           (''row_count'', PInt 0),
           (''truncated'', PBool True)],
      \<lparr>calls = [demo_connect, OpenCursor, Execute t_query, Fetchmany 0, CloseCursor, CloseConnection],
       open_connections = 0, open_cursors = 0\<rparr>) \<and>
   map_of [(''query'', PStr t_query),
           (''columns'', PList [PStr ''id'', PStr ''name'']),
           (''rows'', PList []),
           (''row_count'', PInt 0),
           (''truncated'', PBool True)] ''truncated'' = Some (PBool True)"
proof -
  have capped: "fetchmany_capped (scripted_engine t_description t_rows)"
    by (rule scripted_engine_capped)
  have run: "execute_sql_query (scripted_engine t_description t_rows) demo_config t_query 0 fresh_world =
     (Inr [(''query'', PStr t_query),
           (''columns'', PList [PStr ''id'', PStr ''name'']),
           (''rows'', PList []),
           (''row_count'', PInt 0),
           (''truncated'', PBool True)],
      \<lparr>calls = [demo_connect, OpenCursor, Execute t_query, Fetchmany 0, CloseCursor, CloseConnection],
       open_connections = 0, open_cursors = 0\<rparr>)"
    by (simp add: run_defs)
  from zero_cap_truncated[OF capped run] capped run show ?thesis
    by simp
qed

end
